theory Spec2Isabelle
  imports Complex_Main "HOL-Library.AList"
begin

section \<open>Numbers and capacitor simulation (src/lib/utils.ts)\<close>

text \<open>
  JavaScript numbers are modelled as \<^typ>\<open>real\<close>: the arithmetic of the source is read
  without IEEE rounding, and the special values NaN and Infinity (which the source can
  only produce by dividing by zero) are outside the model. Indices and identifiers that
  the source uses as array positions or map keys are \<^typ>\<open>int\<close> or \<^typ>\<open>nat\<close>.
\<close>

record CapSim =
  stable :: bool
  stablePercent :: "real option"
  lastsSeconds :: "real option"

definition dt :: real where
  "dt = 1 / 10"

definition defaultMaxSimSeconds :: real where
  "defaultMaxSimSeconds = 600"

definition Math_round :: "real \<Rightarrow> real" where
  "Math_round x = real_of_int \<lfloor>x + 1 / 2\<rfloor>"

definition rechargeAt :: "real \<Rightarrow> real \<Rightarrow> real \<Rightarrow> real" where
  "rechargeAt capacity tau cap =
     (let fraction = max (cap / capacity) 0
      in (capacity / tau) * 10 * (sqrt fraction - fraction))"

text \<open>The first loop of \<open>simulateCap\<close>: drain above peak recharge, integrate to exhaustion.\<close>

function drainLoop :: "real \<Rightarrow> real \<Rightarrow> real \<Rightarrow> real \<Rightarrow> real \<Rightarrow> real \<Rightarrow> CapSim" where
  "drainLoop capacity tau drainPerSecond maxSimSeconds t cap =
     (if t < maxSimSeconds then
        (let cap' = cap + (rechargeAt capacity tau cap - drainPerSecond) * dt
         in if cap' \<le> 0
            then \<lparr>stable = False, stablePercent = None, lastsSeconds = Some t\<rparr>
            else drainLoop capacity tau drainPerSecond maxSimSeconds (t + dt) cap')
      else \<lparr>stable = False, stablePercent = None, lastsSeconds = Some maxSimSeconds\<rparr>)"
  by pat_completeness auto
termination
proof (relation "measure (\<lambda>(capacity, tau, drain, m, t, cap). nat \<lceil>(m - t) * 10\<rceil>)")
  show "wf (measure (\<lambda>(capacity, tau, drain, m, t, cap). nat \<lceil>(m - t) * 10\<rceil>))"
    by simp
next
  fix capacity tau drainPerSecond maxSimSeconds t cap :: real and x :: real
  assume lt: "t < maxSimSeconds"
  have eq: "(maxSimSeconds - (t + dt)) * 10 = (maxSimSeconds - t) * 10 - 1"
    by (simp add: dt_def algebra_simps)
  have pos: "0 < \<lceil>(maxSimSeconds - t) * 10\<rceil>"
    using lt by (simp add: ceiling_less_iff)
  have "\<lceil>(maxSimSeconds - (t + dt)) * 10\<rceil> = \<lceil>(maxSimSeconds - t) * 10\<rceil> - 1"
    unfolding eq by (metis ceiling_diff_one)
  with pos show "((capacity, tau, drainPerSecond, maxSimSeconds, t + dt, x),
                  (capacity, tau, drainPerSecond, maxSimSeconds, t, cap))
                 \<in> measure (\<lambda>(capacity, tau, drain, m, t, cap). nat \<lceil>(m - t) * 10\<rceil>)"
    by simp
qed

declare drainLoop.simps [simp del]

text \<open>The second loop of \<open>simulateCap\<close>: search for the stable charge level.\<close>

function stableLoop ::
    "real \<Rightarrow> real \<Rightarrow> real \<Rightarrow> real \<Rightarrow> real \<Rightarrow> real \<Rightarrow> real \<Rightarrow> CapSim" where
  "stableLoop capacity tau drainPerSecond maxSimSeconds t cap prevCap =
     (if t < maxSimSeconds then
        (let cap' = cap + (rechargeAt capacity tau cap - drainPerSecond) * dt
         in if cap' \<le> 0
            then \<lparr>stable = False, stablePercent = None, lastsSeconds = Some t\<rparr>
            else if t > 10 \<and> \<bar>cap' - prevCap\<bar> < (1 / 100) * dt * 10
            then \<lparr>stable = True,
                  stablePercent = Some (Math_round ((cap' / capacity) * 100)),
                  lastsSeconds = None\<rparr>
            else stableLoop capacity tau drainPerSecond maxSimSeconds (t + dt) cap' cap')
      else \<lparr>stable = True,
            stablePercent = Some (Math_round ((cap / capacity) * 100)),
            lastsSeconds = None\<rparr>)"
  by pat_completeness auto
termination
proof (relation "measure (\<lambda>(capacity, tau, drain, m, t, cap, prev). nat \<lceil>(m - t) * 10\<rceil>)")
  show "wf (measure (\<lambda>(capacity, tau, drain, m, t, cap, prev). nat \<lceil>(m - t) * 10\<rceil>))"
    by simp
next
  fix capacity tau drainPerSecond maxSimSeconds t cap prevCap :: real and x :: real
  assume lt: "t < maxSimSeconds"
  have eq: "(maxSimSeconds - (t + dt)) * 10 = (maxSimSeconds - t) * 10 - 1"
    by (simp add: dt_def algebra_simps)
  have pos: "0 < \<lceil>(maxSimSeconds - t) * 10\<rceil>"
    using lt by (simp add: ceiling_less_iff)
  have "\<lceil>(maxSimSeconds - (t + dt)) * 10\<rceil> = \<lceil>(maxSimSeconds - t) * 10\<rceil> - 1"
    unfolding eq by (metis ceiling_diff_one)
  with pos show "((capacity, tau, drainPerSecond, maxSimSeconds, t + dt, x, x),
                  (capacity, tau, drainPerSecond, maxSimSeconds, t, cap, prevCap))
                 \<in> measure (\<lambda>(capacity, tau, drain, m, t, cap, prev). nat \<lceil>(m - t) * 10\<rceil>)"
    by simp
qed

declare stableLoop.simps [simp del]

definition simulateCap :: "real \<Rightarrow> real \<Rightarrow> real \<Rightarrow> real \<Rightarrow> CapSim" where
  "simulateCap capacity rechargeMs drainPerSecond maxSimSeconds =
     (if drainPerSecond \<le> 0
      then \<lparr>stable = True, stablePercent = Some 100, lastsSeconds = None\<rparr>
      else
        (let tau = rechargeMs / 1000;
             peakRecharge = (5 / 2 * capacity) / tau
         in if drainPerSecond > peakRecharge * (11 / 10)
            then drainLoop capacity tau drainPerSecond maxSimSeconds 0 capacity
            else stableLoop capacity tau drainPerSecond maxSimSeconds 0 capacity capacity))"

definition calculateAlignTime :: "real \<Rightarrow> real \<Rightarrow> real" where
  "calculateAlignTime mass agility = (- ln (1 / 4) * agility * mass) / 1000000"

definition calculateEHP :: "real \<Rightarrow> real \<Rightarrow> real" where
  "calculateEHP hp avgRes = (if avgRes \<ge> 1 then hp else hp / avgRes)"

definition avgResonance :: "real \<Rightarrow> real \<Rightarrow> real \<Rightarrow> real \<Rightarrow> real" where
  "avgResonance em thermal kinetic explosive = (em + thermal + kinetic + explosive) / 4"


section \<open>Data model (src/types/eve.ts)\<close>

datatype SlotType = High | Mid | Low | Rig | Subsystem | Drone | Cargo

datatype ModuleState = Active | Passive | Offline

text \<open>
  A \<open>Record<number, number>\<close> is a partial map from keys to numbers; an absent optional
  record (\<open>attributes?\<close>) and an absent optional array (\<open>effects?\<close>) are read by the source
  only through \<open>?.\<close> and \<open>??\<close>, so they are the empty map and the empty list.
\<close>

record Charge =
  charge_type_id :: nat
  charge_name :: string
  charge_quantity :: real
  charge_attributes :: "nat \<rightharpoonup> real"

text \<open>
  \<open>ModuleData\<close> is \<open>Omit<FittedModule, "id" | "slot_type" | "slot_index">\<close>, the argument
  of the store's placement operations; \<open>FittedModule\<close> extends it with the three omitted
  fields, as the object spread \<open>{...moduleData, id, slot_type, slot_index}\<close> does.
\<close>

record ModuleData =
  type_id :: nat
  mod_name :: string
  state :: ModuleState
  charge :: "Charge option"
  group_id :: "nat option"
  category_id :: "nat option"
  attributes :: "nat \<rightharpoonup> real"
  effects :: "nat list"

record FittedModule = ModuleData +
  mod_id :: string
  slot_type :: SlotType
  slot_index :: int

record Fitting =
  fit_id :: string
  fit_name :: string
  ship_type_id :: nat
  ship_name :: string
  ship_group_id :: "nat option"
  description :: "string option"
  tags :: "string list option"
  high_slots :: "FittedModule option list"
  mid_slots :: "FittedModule option list"
  low_slots :: "FittedModule option list"
  rig_slots :: "FittedModule option list"
  subsystem_slots :: "FittedModule option list"
  drones :: "FittedModule list"
  cargo :: "FittedModule list"
  created_at :: string
  updated_at :: string

record EveType =
  et_type_id :: nat
  et_name :: string
  et_group_id :: nat
  et_category_id :: "nat option"
  mass :: "real option"
  dogma_attributes :: "(nat \<times> real) list"
  dogma_effects :: "(nat \<times> bool) list"

record ResistanceProfile =
  em :: real
  thermal :: real
  kinetic :: real
  explosive :: real

record LayerStats =
  hp :: real
  resist :: ResistanceProfile
  ehp :: real
  avg_resist :: real

record CapacitorStats =
  capacity :: real
  recharge_rate :: real
  peak_recharge :: real
  drain_per_second :: real
  cap_stable :: bool
  stable_percent :: "real option"
  lasts_seconds :: "real option"

record OffenseStats =
  turret_dps :: real
  missile_dps :: real
  drone_dps :: real
  total_dps :: real
  alpha :: real
  volley :: real
  turret_optimal :: real
  turret_falloff :: real
  missile_range :: real
  drone_control_range :: real

record NavigationStats =
  max_velocity :: real
  agility :: real
  warp_speed :: real
  align_time :: real
  signature_radius :: real
  nav_mass :: real
  inertia_modifier :: real

datatype SensorType = Gravimetric | Magnetometric | Ladar | Radar

record TargetingStats =
  max_targets :: real
  max_target_range :: real
  scan_resolution :: real
  sensor_strength :: real
  sensor_type :: SensorType

record EngineeringStats =
  cpu_total :: real
  cpu_used :: real
  cpu_remaining :: real
  pg_total :: real
  pg_used :: real
  pg_remaining :: real
  calibration_total :: real
  calibration_used :: real
  drone_bandwidth_total :: real
  drone_bandwidth_used :: real
  drone_capacity :: real
  drone_capacity_used :: real

record ShipStats =
  engineering :: EngineeringStats
  capacitor :: CapacitorStats
  offense :: OffenseStats
  navigation :: NavigationStats
  targeting :: TargetingStats
  shield :: LayerStats
  armor :: LayerStats
  hull_layer :: LayerStats
  total_ehp :: real
  stat_high_slots :: real
  stat_mid_slots :: real
  stat_low_slots :: real
  stat_rig_slots :: real
  turret_hardpoints :: real
  launcher_hardpoints :: real

datatype SkillMode = SkillNone | AllV | MySkills

type_synonym SkillMap = "nat \<rightharpoonup> real"

text \<open>The thirteen properties of the \<open>SkillDeltas\<close> interface, in its order.\<close>

record SkillDeltas =
  d_cpu_total :: real
  d_pg_total :: real
  d_cap_capacity :: real
  d_cap_recharge :: real
  d_shield_hp :: real
  d_armor_hp :: real
  d_hull_hp :: real
  d_max_velocity :: real
  d_inertia_modifier :: real
  d_align_time :: real
  d_max_targets :: real
  d_max_target_range :: real
  d_scan_resolution :: real

section \<open>Constants (src/lib/constants.ts)\<close>

abbreviation (input) "ATTR_POWERGRID \<equiv> (11::nat)"
abbreviation (input) "ATTR_CPU \<equiv> (48::nat)"
abbreviation (input) "ATTR_MODULE_PG_USAGE \<equiv> (30::nat)"
abbreviation (input) "ATTR_MODULE_CPU_USAGE \<equiv> (50::nat)"
abbreviation (input) "ATTR_MODULE_ACTIVATION_COST \<equiv> (15::nat)"
abbreviation (input) "ATTR_MODULE_CYCLE_TIME \<equiv> (51::nat)"
abbreviation (input) "ATTR_CAP_CAPACITY \<equiv> (482::nat)"
abbreviation (input) "ATTR_CAP_RECHARGE_TIME \<equiv> (55::nat)"
abbreviation (input) "ATTR_STRUCTURE_HP \<equiv> (9::nat)"
abbreviation (input) "ATTR_ARMOR_HP \<equiv> (265::nat)"
abbreviation (input) "ATTR_SHIELD_CAPACITY \<equiv> (263::nat)"
abbreviation (input) "ATTR_SHIELD_EM_RESONANCE \<equiv> (271::nat)"
abbreviation (input) "ATTR_SHIELD_EXPLOSIVE_RESONANCE \<equiv> (272::nat)"
abbreviation (input) "ATTR_SHIELD_KINETIC_RESONANCE \<equiv> (273::nat)"
abbreviation (input) "ATTR_SHIELD_THERMAL_RESONANCE \<equiv> (274::nat)"
abbreviation (input) "ATTR_ARMOR_EM_RESONANCE \<equiv> (267::nat)"
abbreviation (input) "ATTR_ARMOR_EXPLOSIVE_RESONANCE \<equiv> (268::nat)"
abbreviation (input) "ATTR_ARMOR_KINETIC_RESONANCE \<equiv> (269::nat)"
abbreviation (input) "ATTR_ARMOR_THERMAL_RESONANCE \<equiv> (270::nat)"
abbreviation (input) "ATTR_HULL_EM_RESONANCE \<equiv> (113::nat)"
abbreviation (input) "ATTR_HULL_KINETIC_RESONANCE \<equiv> (109::nat)"
abbreviation (input) "ATTR_HULL_THERMAL_RESONANCE \<equiv> (110::nat)"
abbreviation (input) "ATTR_HULL_EXPLOSIVE_RESONANCE \<equiv> (111::nat)"
abbreviation (input) "ATTR_MAX_VELOCITY \<equiv> (37::nat)"
abbreviation (input) "ATTR_INERTIA_MODIFIER \<equiv> (70::nat)"
abbreviation (input) "ATTR_WARP_SPEED_MULT \<equiv> (600::nat)"
abbreviation (input) "ATTR_SIGNATURE_RADIUS \<equiv> (552::nat)"
abbreviation (input) "ATTR_MAX_TARGETS \<equiv> (192::nat)"
abbreviation (input) "ATTR_MAX_TARGET_RANGE \<equiv> (76::nat)"
abbreviation (input) "ATTR_SCAN_RESOLUTION \<equiv> (564::nat)"
abbreviation (input) "ATTR_SENSOR_RADAR_STRENGTH \<equiv> (208::nat)"
abbreviation (input) "ATTR_SENSOR_LADAR_STRENGTH \<equiv> (209::nat)"
abbreviation (input) "ATTR_SENSOR_MAGNETOMETRIC_STRENGTH \<equiv> (210::nat)"
abbreviation (input) "ATTR_SENSOR_GRAVIMETRIC_STRENGTH \<equiv> (211::nat)"
abbreviation (input) "ATTR_LAUNCHER_SLOTS_LEFT \<equiv> (101::nat)"
abbreviation (input) "ATTR_TURRET_SLOTS_LEFT \<equiv> (102::nat)"
abbreviation (input) "ATTR_DRONE_CAPACITY \<equiv> (283::nat)"
abbreviation (input) "ATTR_DRONE_BANDWIDTH \<equiv> (1271::nat)"
abbreviation (input) "ATTR_CALIBRATION_TOTAL \<equiv> (1132::nat)"
abbreviation (input) "ATTR_CALIBRATION_COST \<equiv> (1153::nat)"
abbreviation (input) "ATTR_DAMAGE_MULTIPLIER \<equiv> (64::nat)"
abbreviation (input) "ATTR_TRACKING_SPEED \<equiv> (160::nat)"
abbreviation (input) "ATTR_OPTIMAL_RANGE \<equiv> (54::nat)"
abbreviation (input) "ATTR_FALLOFF \<equiv> (158::nat)"
abbreviation (input) "ATTR_MISSILE_FLIGHT_TIME \<equiv> (51::nat)"
abbreviation (input) "ATTR_MISSILE_VELOCITY \<equiv> (37::nat)"
abbreviation (input) "ATTR_EXPLOSION_RADIUS \<equiv> (103::nat)"
abbreviation (input) "ATTR_MISSILE_DAMAGE_MULT \<equiv> (212::nat)"
abbreviation (input) "ATTR_EM_DAMAGE \<equiv> (114::nat)"
abbreviation (input) "ATTR_EXPLOSIVE_DAMAGE \<equiv> (116::nat)"
abbreviation (input) "ATTR_KINETIC_DAMAGE \<equiv> (117::nat)"
abbreviation (input) "ATTR_THERMAL_DAMAGE \<equiv> (118::nat)"

abbreviation (input) "CATEGORY_SKILL \<equiv> (16::nat)"

abbreviation (input) "CPU_MANAGEMENT \<equiv> (3426::nat)"
abbreviation (input) "POWER_GRID_MANAGEMENT \<equiv> (3413::nat)"
abbreviation (input) "CAPACITOR_MANAGEMENT \<equiv> (3418::nat)"
abbreviation (input) "CAPACITOR_SYSTEMS_OPERATION \<equiv> (3417::nat)"
abbreviation (input) "SHIELD_MANAGEMENT \<equiv> (3419::nat)"
abbreviation (input) "HULL_UPGRADES \<equiv> (3394::nat)"
abbreviation (input) "MECHANICS \<equiv> (3392::nat)"
abbreviation (input) "NAVIGATION \<equiv> (3449::nat)"
abbreviation (input) "EVASIVE_MANEUVERING \<equiv> (3453::nat)"
abbreviation (input) "TARGET_MANAGEMENT \<equiv> (3428::nat)"
abbreviation (input) "LONG_RANGE_TARGETING \<equiv> (3431::nat)"
abbreviation (input) "SIGNATURE_ANALYSIS \<equiv> (3432::nat)"

text \<open>\<open>Object.values(SUPPORT_SKILL_IDS)\<close>, in the object's property order.\<close>

definition SUPPORT_SKILL_IDS :: "nat list" where
  "SUPPORT_SKILL_IDS =
     [CPU_MANAGEMENT, POWER_GRID_MANAGEMENT, CAPACITOR_MANAGEMENT,
      CAPACITOR_SYSTEMS_OPERATION, SHIELD_MANAGEMENT, HULL_UPGRADES, MECHANICS,
      NAVIGATION, EVASIVE_MANEUVERING, TARGET_MANAGEMENT, LONG_RANGE_TARGETING,
      SIGNATURE_ANALYSIS]"

section \<open>Ship stats calculator (src/lib/stats.ts)\<close>

definition shipAttr :: "EveType \<Rightarrow> nat \<Rightarrow> real \<Rightarrow> real" where
  "shipAttr type attrId fallback =
     (case find (\<lambda>a. fst a = attrId) (dogma_attributes type) of
        None \<Rightarrow> fallback
      | Some a \<Rightarrow> snd a)"

definition modAttr :: "'a ModuleData_scheme \<Rightarrow> nat \<Rightarrow> real \<Rightarrow> real" where
  "modAttr m attrId fallback =
     (case attributes m attrId of None \<Rightarrow> fallback | Some v \<Rightarrow> v)"

definition allFittedModules :: "Fitting \<Rightarrow> FittedModule list" where
  "allFittedModules fitting =
     List.map_filter (\<lambda>m. m)
       (high_slots fitting @ mid_slots fitting @ low_slots fitting @
        rig_slots fitting @ subsystem_slots fitting)"

definition activeModules :: "Fitting \<Rightarrow> FittedModule list" where
  "activeModules fitting = filter (\<lambda>m. state m = Active) (allFittedModules fitting)"

subsection \<open>Engineering\<close>

record EngineeringUsed =
  cpuUsed :: real
  pgUsed :: real
  calibrationUsed :: real
  droneBandwidthUsed :: real
  droneCapacityUsed :: real

definition engineeringStep :: "EngineeringUsed \<Rightarrow> FittedModule \<Rightarrow> EngineeringUsed" where
  "engineeringStep acc m =
     (if state m = Offline then acc
      else
        (let acc1 =
               (if slot_type m = Drone
                then acc\<lparr>droneBandwidthUsed :=
                            droneBandwidthUsed acc + modAttr m ATTR_DRONE_BANDWIDTH 0,
                         droneCapacityUsed :=
                            droneCapacityUsed acc + modAttr m ATTR_DRONE_CAPACITY 0\<rparr>
                else if slot_type m = Rig
                then acc\<lparr>calibrationUsed :=
                            calibrationUsed acc + modAttr m ATTR_CALIBRATION_COST 0\<rparr>
                else acc)
         in acc1\<lparr>cpuUsed := cpuUsed acc1 + modAttr m ATTR_MODULE_CPU_USAGE 0,
                 pgUsed := pgUsed acc1 + modAttr m ATTR_MODULE_PG_USAGE 0\<rparr>))"

definition calcEngineering :: "EveType \<Rightarrow> Fitting \<Rightarrow> EngineeringStats" where
  "calcEngineering shipType fitting =
     (let cpuTotal = shipAttr shipType ATTR_CPU 0;
          pgTotal = shipAttr shipType ATTR_POWERGRID 0;
          calibrationTotal = shipAttr shipType ATTR_CALIBRATION_TOTAL 400;
          droneBandwidthTotal = shipAttr shipType ATTR_DRONE_BANDWIDTH 0;
          droneCapacity = shipAttr shipType ATTR_DRONE_CAPACITY 0;
          used = foldl engineeringStep
                   \<lparr>cpuUsed = 0, pgUsed = 0, calibrationUsed = 0,
                    droneBandwidthUsed = 0, droneCapacityUsed = 0\<rparr>
                   (allFittedModules fitting)
      in \<lparr>cpu_total = cpuTotal,
          cpu_used = cpuUsed used,
          cpu_remaining = cpuTotal - cpuUsed used,
          pg_total = pgTotal,
          pg_used = pgUsed used,
          pg_remaining = pgTotal - pgUsed used,
          calibration_total = calibrationTotal,
          calibration_used = calibrationUsed used,
          drone_bandwidth_total = droneBandwidthTotal,
          drone_bandwidth_used = droneBandwidthUsed used,
          drone_capacity = droneCapacity,
          drone_capacity_used = droneCapacityUsed used\<rparr>)"

subsection \<open>Defense layers\<close>

definition calcResistProfile ::
    "EveType \<Rightarrow> nat \<Rightarrow> nat \<Rightarrow> nat \<Rightarrow> nat \<Rightarrow> ResistanceProfile" where
  "calcResistProfile shipType emAttr thermalAttr kineticAttr explosiveAttr =
     \<lparr>em = shipAttr shipType emAttr 1,
      thermal = shipAttr shipType thermalAttr 1,
      kinetic = shipAttr shipType kineticAttr 1,
      explosive = shipAttr shipType explosiveAttr 1\<rparr>"

definition calcLayerStats :: "real \<Rightarrow> ResistanceProfile \<Rightarrow> LayerStats" where
  "calcLayerStats hp0 resist0 =
     (let avg = avgResonance (em resist0) (thermal resist0) (kinetic resist0)
                  (explosive resist0)
      in \<lparr>hp = hp0, resist = resist0, ehp = calculateEHP hp0 avg, avg_resist = avg\<rparr>)"

definition calcShield :: "EveType \<Rightarrow> LayerStats" where
  "calcShield shipType =
     calcLayerStats (shipAttr shipType ATTR_SHIELD_CAPACITY 0)
       (calcResistProfile shipType ATTR_SHIELD_EM_RESONANCE ATTR_SHIELD_THERMAL_RESONANCE
          ATTR_SHIELD_KINETIC_RESONANCE ATTR_SHIELD_EXPLOSIVE_RESONANCE)"

definition calcArmor :: "EveType \<Rightarrow> LayerStats" where
  "calcArmor shipType =
     calcLayerStats (shipAttr shipType ATTR_ARMOR_HP 0)
       (calcResistProfile shipType ATTR_ARMOR_EM_RESONANCE ATTR_ARMOR_THERMAL_RESONANCE
          ATTR_ARMOR_KINETIC_RESONANCE ATTR_ARMOR_EXPLOSIVE_RESONANCE)"

definition calcHull :: "EveType \<Rightarrow> LayerStats" where
  "calcHull shipType =
     calcLayerStats (shipAttr shipType ATTR_STRUCTURE_HP 0)
       (calcResistProfile shipType ATTR_HULL_EM_RESONANCE ATTR_HULL_THERMAL_RESONANCE
          ATTR_HULL_KINETIC_RESONANCE ATTR_HULL_EXPLOSIVE_RESONANCE)"

subsection \<open>Capacitor\<close>

definition drainStep :: "real \<Rightarrow> FittedModule \<Rightarrow> real" where
  "drainStep drainPerSecond m =
     (let activationCost = modAttr m ATTR_MODULE_ACTIVATION_COST 0;
          cycleTimeMs = modAttr m ATTR_MODULE_CYCLE_TIME 0
      in if activationCost > 0 \<and> cycleTimeMs > 0
         then drainPerSecond + activationCost / (cycleTimeMs / 1000)
         else drainPerSecond)"

definition calcCapacitor :: "EveType \<Rightarrow> Fitting \<Rightarrow> CapacitorStats" where
  "calcCapacitor shipType fitting =
     (let capacity0 = shipAttr shipType ATTR_CAP_CAPACITY 0;
          rechargeMs = shipAttr shipType ATTR_CAP_RECHARGE_TIME 0;
          tau = rechargeMs / 1000;
          peakRecharge = (if tau > 0 then (5 / 2 * capacity0) / tau else 0);
          drainPerSecond = foldl drainStep 0 (activeModules fitting);
          sim = simulateCap capacity0 rechargeMs drainPerSecond defaultMaxSimSeconds
      in \<lparr>capacity = capacity0,
          recharge_rate = tau,
          peak_recharge = peakRecharge,
          drain_per_second = drainPerSecond,
          cap_stable = stable sim,
          stable_percent = stablePercent sim,
          lasts_seconds = lastsSeconds sim\<rparr>)"

subsection \<open>Offense\<close>

record OffenseAcc =
  turretDps :: real
  missileDps :: real
  turretAlpha :: real
  missileAlpha :: real
  turretOptimal :: real
  turretFalloff :: real
  missileRange :: real

text \<open>The turret branch of the loop body of \<open>calcOffense\<close>.\<close>

definition turretStep :: "OffenseAcc \<Rightarrow> FittedModule \<Rightarrow> OffenseAcc" where
  "turretStep acc m =
     (let cycleMs = modAttr m ATTR_MODULE_CYCLE_TIME 0;
          dmgMult = modAttr m ATTR_DAMAGE_MULTIPLIER 1;
          baseDmg = modAttr m ATTR_EM_DAMAGE 0 + modAttr m ATTR_THERMAL_DAMAGE 0 +
                    modAttr m ATTR_KINETIC_DAMAGE 0 + modAttr m ATTR_EXPLOSIVE_DAMAGE 0
      in if modAttr m ATTR_TRACKING_SPEED 0 > 0 \<and> cycleMs > 0
         then
           (let volley0 = baseDmg * dmgMult
            in acc\<lparr>turretAlpha := turretAlpha acc + volley0,
                    turretDps := turretDps acc + volley0 / (cycleMs / 1000),
                    turretOptimal := max (turretOptimal acc) (modAttr m ATTR_OPTIMAL_RANGE 0),
                    turretFalloff := max (turretFalloff acc) (modAttr m ATTR_FALLOFF 0)\<rparr>)
         else acc)"

text \<open>The missile branch of the loop body of \<open>calcOffense\<close>.\<close>

definition missileStep :: "OffenseAcc \<Rightarrow> FittedModule \<Rightarrow> OffenseAcc" where
  "missileStep acc m =
     (let cycleMs = modAttr m ATTR_MODULE_CYCLE_TIME 0;
          baseDmg = modAttr m ATTR_EM_DAMAGE 0 + modAttr m ATTR_THERMAL_DAMAGE 0 +
                    modAttr m ATTR_KINETIC_DAMAGE 0 + modAttr m ATTR_EXPLOSIVE_DAMAGE 0
      in if modAttr m ATTR_EXPLOSION_RADIUS 0 > 0 \<and> cycleMs > 0
         then
           (let missileMult = modAttr m ATTR_MISSILE_DAMAGE_MULT 1;
                volley0 = baseDmg * missileMult;
                acc1 = acc\<lparr>missileAlpha := missileAlpha acc + volley0,
                           missileDps := missileDps acc + volley0 / (cycleMs / 1000)\<rparr>;
                flightTimeMs = modAttr m ATTR_MISSILE_FLIGHT_TIME 0;
                velocity = modAttr m ATTR_MISSILE_VELOCITY 0
            in if flightTimeMs > 0 \<and> velocity > 0
               then acc1\<lparr>missileRange :=
                             max (missileRange acc1) ((flightTimeMs / 1000) * velocity)\<rparr>
               else acc1)
         else acc)"

text \<open>One iteration of the loop over the active modules: the two \<open>if\<close>s in sequence.\<close>

definition offenseStep :: "OffenseAcc \<Rightarrow> FittedModule \<Rightarrow> OffenseAcc" where
  "offenseStep acc m = missileStep (turretStep acc m) m"

definition droneStep :: "real \<Rightarrow> FittedModule \<Rightarrow> real" where
  "droneStep droneDps drone =
     (let cycleMs = modAttr drone ATTR_MODULE_CYCLE_TIME 0;
          dmgMult = modAttr drone ATTR_DAMAGE_MULTIPLIER 1;
          baseDmg = modAttr drone ATTR_EM_DAMAGE 0 + modAttr drone ATTR_THERMAL_DAMAGE 0 +
                    modAttr drone ATTR_KINETIC_DAMAGE 0 + modAttr drone ATTR_EXPLOSIVE_DAMAGE 0
      in if cycleMs > 0 \<and> baseDmg > 0
         then droneDps + (baseDmg * dmgMult) / (cycleMs / 1000)
         else droneDps)"

definition offenseZero :: OffenseAcc where
  "offenseZero =
     \<lparr>turretDps = 0, missileDps = 0, turretAlpha = 0, missileAlpha = 0,
      turretOptimal = 0, turretFalloff = 0, missileRange = 0\<rparr>"

definition calcOffense :: "Fitting \<Rightarrow> OffenseStats" where
  "calcOffense fitting =
     (let acc = foldl offenseStep offenseZero (activeModules fitting);
          droneDps = foldl droneStep 0 (drones fitting);
          droneRange = 0;
          totalDps = turretDps acc + missileDps acc + droneDps;
          alpha0 = turretAlpha acc + missileAlpha acc
      in \<lparr>turret_dps = turretDps acc,
          missile_dps = missileDps acc,
          drone_dps = droneDps,
          total_dps = totalDps,
          alpha = alpha0,
          volley = alpha0,
          turret_optimal = turretOptimal acc,
          turret_falloff = turretFalloff acc,
          missile_range = missileRange acc,
          drone_control_range = droneRange\<rparr>)"

subsection \<open>Navigation and targeting\<close>

definition calcNavigation :: "EveType \<Rightarrow> NavigationStats" where
  "calcNavigation shipType =
     (let maxVelocity = shipAttr shipType ATTR_MAX_VELOCITY 0;
          inertia = shipAttr shipType ATTR_INERTIA_MODIFIER 1;
          mass0 = (case mass shipType of None \<Rightarrow> 1000000 | Some m \<Rightarrow> m);
          warpSpeed = shipAttr shipType ATTR_WARP_SPEED_MULT 1;
          sigRadius = shipAttr shipType ATTR_SIGNATURE_RADIUS 100
      in \<lparr>max_velocity = maxVelocity,
          agility = inertia,
          warp_speed = warpSpeed,
          align_time = calculateAlignTime mass0 inertia,
          signature_radius = sigRadius,
          nav_mass = mass0,
          inertia_modifier = inertia\<rparr>)"

text \<open>\<open>sensors.reduce((a, b) => (b.value > a.value ? b : a))\<close> on the four sensors.\<close>

definition strongerSensor :: "SensorType \<times> real \<Rightarrow> SensorType \<times> real \<Rightarrow> SensorType \<times> real" where
  "strongerSensor a b = (if snd b > snd a then b else a)"

definition calcTargeting :: "EveType \<Rightarrow> TargetingStats" where
  "calcTargeting shipType =
     (let maxTargets = shipAttr shipType ATTR_MAX_TARGETS 7;
          maxRange = shipAttr shipType ATTR_MAX_TARGET_RANGE 50000;
          scanRes = shipAttr shipType ATTR_SCAN_RESOLUTION 300;
          radar = shipAttr shipType ATTR_SENSOR_RADAR_STRENGTH 0;
          ladar = shipAttr shipType ATTR_SENSOR_LADAR_STRENGTH 0;
          magneto = shipAttr shipType ATTR_SENSOR_MAGNETOMETRIC_STRENGTH 0;
          gravi = shipAttr shipType ATTR_SENSOR_GRAVIMETRIC_STRENGTH 0;
          strongest = foldl strongerSensor (Radar, radar)
                        [(Ladar, ladar), (Magnetometric, magneto), (Gravimetric, gravi)]
      in \<lparr>max_targets = maxTargets,
          max_target_range = maxRange,
          scan_resolution = scanRes,
          sensor_strength = snd strongest,
          sensor_type = fst strongest\<rparr>)"

subsection \<open>Main calculator\<close>

definition calculateShipStats :: "EveType \<Rightarrow> Fitting \<Rightarrow> ShipStats" where
  "calculateShipStats shipType fitting =
     (let shield0 = calcShield shipType;
          armor0 = calcArmor shipType;
          hull0 = calcHull shipType
      in \<lparr>engineering = calcEngineering shipType fitting,
          capacitor = calcCapacitor shipType fitting,
          offense = calcOffense fitting,
          navigation = calcNavigation shipType,
          targeting = calcTargeting shipType,
          shield = shield0,
          armor = armor0,
          hull_layer = hull0,
          total_ehp = ehp shield0 + ehp armor0 + ehp hull0,
          stat_high_slots = real (length (high_slots fitting)),
          stat_mid_slots = real (length (mid_slots fitting)),
          stat_low_slots = real (length (low_slots fitting)),
          stat_rig_slots = real (length (rig_slots fitting)),
          turret_hardpoints = shipAttr shipType ATTR_TURRET_SLOTS_LEFT 0,
          launcher_hardpoints = shipAttr shipType ATTR_LAUNCHER_SLOTS_LEFT 0\<rparr>)"


section \<open>Skill bonus system (src/lib/skills.ts)\<close>

definition lvl :: "SkillMap \<Rightarrow> nat \<Rightarrow> real" where
  "lvl skills skillId = (case skills skillId of None \<Rightarrow> 0 | Some l \<Rightarrow> l)"

definition allLevelVSkillMap :: SkillMap where
  "allLevelVSkillMap = foldl (\<lambda>map0 i. map0(i \<mapsto> 5)) Map.empty SUPPORT_SKILL_IDS"

text \<open>
  The block the source repeats for shield, armor and hull: the layer's hit points become
  the snapshotted base times the multiplier, and its EHP is recomputed from the layer's
  unchanged resistances.
\<close>

definition bonusLayer :: "LayerStats \<Rightarrow> real \<Rightarrow> real \<Rightarrow> LayerStats" where
  "bonusLayer layer baseHp mult =
     (let hp1 = baseHp * mult
      in layer\<lparr>hp := hp1,
                ehp := calculateEHP hp1
                         (avgResonance (em (resist layer)) (thermal (resist layer))
                            (kinetic (resist layer)) (explosive (resist layer)))\<rparr>)"

text \<open>
  \<open>applySkillBonuses\<close> overwrites its argument in place and returns the deltas; the model
  returns the overwritten stats together with the deltas.
\<close>

definition applySkillBonuses :: "ShipStats \<Rightarrow> SkillMap \<Rightarrow> ShipStats \<times> SkillDeltas" where
  "applySkillBonuses stats skills =
     (let baseCpuTotal = cpu_total (engineering stats);
          basePgTotal = pg_total (engineering stats);
          baseCapCapacity = capacity (capacitor stats);
          baseCapRecharge = recharge_rate (capacitor stats);
          baseShieldHp = hp (shield stats);
          baseArmorHp = hp (armor stats);
          baseHullHp = hp (hull_layer stats);
          baseVelocity = max_velocity (navigation stats);
          baseInertia = inertia_modifier (navigation stats);
          baseMaxTargets = max_targets (targeting stats);
          baseTargetRange = max_target_range (targeting stats);
          baseScanRes = scan_resolution (targeting stats);

          cpuMult = 1 + (5 / 100) * lvl skills CPU_MANAGEMENT;
          eng1 = (engineering stats)\<lparr>cpu_total := baseCpuTotal * cpuMult\<rparr>;
          eng2 = eng1\<lparr>cpu_remaining := cpu_total eng1 - cpu_used eng1\<rparr>;
          pgMult = 1 + (5 / 100) * lvl skills POWER_GRID_MANAGEMENT;
          eng3 = eng2\<lparr>pg_total := basePgTotal * pgMult\<rparr>;
          eng4 = eng3\<lparr>pg_remaining := pg_total eng3 - pg_used eng3\<rparr>;

          capMult = 1 + (5 / 100) * lvl skills CAPACITOR_MANAGEMENT;
          capRechargeMult = 1 - (5 / 100) * lvl skills CAPACITOR_SYSTEMS_OPERATION;
          cap1 = (capacitor stats)\<lparr>capacity := baseCapCapacity * capMult,
                                    recharge_rate := baseCapRecharge * capRechargeMult\<rparr>;
          cap2 = cap1\<lparr>peak_recharge :=
                         (if recharge_rate cap1 > 0
                          then (5 / 2 * capacity cap1) / recharge_rate cap1
                          else 0)\<rparr>;
          sim = simulateCap (capacity cap2) (recharge_rate cap2 * 1000)
                  (drain_per_second cap2) defaultMaxSimSeconds;
          cap3 = cap2\<lparr>cap_stable := stable sim,
                       stable_percent := stablePercent sim,
                       lasts_seconds := lastsSeconds sim\<rparr>;

          shieldMult = 1 + (5 / 100) * lvl skills SHIELD_MANAGEMENT;
          shield1 = bonusLayer (shield stats) baseShieldHp shieldMult;
          armorMult = 1 + (5 / 100) * lvl skills HULL_UPGRADES;
          armor1 = bonusLayer (armor stats) baseArmorHp armorMult;
          hullMult = 1 + (5 / 100) * lvl skills MECHANICS;
          hull1 = bonusLayer (hull_layer stats) baseHullHp hullMult;
          totalEhp = ehp shield1 + ehp armor1 + ehp hull1;

          velMult = 1 + (5 / 100) * lvl skills NAVIGATION;
          nav1 = (navigation stats)\<lparr>max_velocity := baseVelocity * velMult\<rparr>;
          inertiaMult = 1 - (5 / 100) * lvl skills EVASIVE_MANEUVERING;
          nav2 = nav1\<lparr>inertia_modifier := baseInertia * inertiaMult\<rparr>;
          nav3 = nav2\<lparr>agility := inertia_modifier nav2\<rparr>;
          nav4 = nav3\<lparr>align_time := calculateAlignTime (nav_mass nav3) (inertia_modifier nav3)\<rparr>;

          targetMgmtLvl = lvl skills TARGET_MANAGEMENT;
          tgt1 = (targeting stats)\<lparr>max_targets := baseMaxTargets + targetMgmtLvl\<rparr>;
          rangeMult = 1 + (5 / 100) * lvl skills LONG_RANGE_TARGETING;
          tgt2 = tgt1\<lparr>max_target_range := baseTargetRange * rangeMult\<rparr>;
          scanResMult = 1 + (5 / 100) * lvl skills SIGNATURE_ANALYSIS;
          tgt3 = tgt2\<lparr>scan_resolution := baseScanRes * scanResMult\<rparr>;

          stats1 = stats\<lparr>engineering := eng4, capacitor := cap3, shield := shield1,
                          armor := armor1, hull_layer := hull1, total_ehp := totalEhp,
                          navigation := nav4, targeting := tgt3\<rparr>
      in (stats1,
          \<lparr>d_cpu_total = cpu_total (engineering stats1) - baseCpuTotal,
           d_pg_total = pg_total (engineering stats1) - basePgTotal,
           d_cap_capacity = capacity (capacitor stats1) - baseCapCapacity,
           d_cap_recharge = recharge_rate (capacitor stats1) - baseCapRecharge,
           d_shield_hp = hp (shield stats1) - baseShieldHp,
           d_armor_hp = hp (armor stats1) - baseArmorHp,
           d_hull_hp = hp (hull_layer stats1) - baseHullHp,
           d_max_velocity = max_velocity (navigation stats1) - baseVelocity,
           d_inertia_modifier = inertia_modifier (navigation stats1) - baseInertia,
           d_align_time = align_time (navigation stats1)
                            - calculateAlignTime (nav_mass (navigation stats1)) baseInertia,
           d_max_targets = max_targets (targeting stats1) - baseMaxTargets,
           d_max_target_range = max_target_range (targeting stats1) - baseTargetRange,
           d_scan_resolution = scan_resolution (targeting stats1) - baseScanRes\<rparr>))"

section \<open>Fitting store (src/store/fitting-store.ts, src/lib/utils.ts)\<close>

text \<open>
  The store's state is the record below; an action is a function from the state to the
  state that the action's \<open>set\<close> call leaves, and an action that returns before \<open>set\<close>
  returns the state it was given. The fresh identifiers of \<open>generateId\<close> and the time
  stamp of \<open>new Date().toISOString()\<close> come from outside and are arguments.
\<close>

record FittingStore =
  fitting :: "Fitting option"
  shipType :: "EveType option"
  stats :: "ShipStats option"
  skillMode :: SkillMode
  skillMap :: "SkillMap option"
  skillDeltas :: "SkillDeltas option"
  savedFittings :: "Fitting list"
  activeSlot :: "(SlotType \<times> int) option"
  moduleSearchOpen :: bool
  eftImportOpen :: bool
  dirty :: bool

record SlotCounts =
  highSlots :: "nat option"
  midSlots :: "nat option"
  lowSlots :: "nat option"
  rigSlots :: "nat option"
  subsystemSlots :: "nat option"

definition createEmptySlots :: "nat \<Rightarrow> FittedModule option list" where
  "createEmptySlots count = replicate count None"

definition createEmptyFitting ::
    "string \<Rightarrow> string \<Rightarrow> nat \<Rightarrow> string \<Rightarrow> nat \<Rightarrow> nat \<Rightarrow> nat \<Rightarrow> nat \<Rightarrow> Fitting" where
  "createEmptyFitting newId now shipTypeId shipName highN midN lowN rigN =
     \<lparr>fit_id = newId,
      fit_name = ''New Fitting'',
      ship_type_id = shipTypeId,
      ship_name = shipName,
      ship_group_id = None,
      description = Some [],
      tags = Some [],
      high_slots = createEmptySlots highN,
      mid_slots = createEmptySlots midN,
      low_slots = createEmptySlots lowN,
      rig_slots = createEmptySlots rigN,
      subsystem_slots = createEmptySlots 0,
      drones = [],
      cargo = [],
      created_at = now,
      updated_at = now\<rparr>"

datatype SlotKey =
  Key_high_slots | Key_mid_slots | Key_low_slots | Key_rig_slots | Key_subsystem_slots

fun getSlotArrayKey :: "SlotType \<Rightarrow> SlotKey option" where
  "getSlotArrayKey High = Some Key_high_slots"
| "getSlotArrayKey Mid = Some Key_mid_slots"
| "getSlotArrayKey Low = Some Key_low_slots"
| "getSlotArrayKey Rig = Some Key_rig_slots"
| "getSlotArrayKey Subsystem = Some Key_subsystem_slots"
| "getSlotArrayKey _ = None"

text \<open>Reading and writing the property \<open>updated[key]\<close>.\<close>

fun slotsAt :: "SlotKey \<Rightarrow> Fitting \<Rightarrow> FittedModule option list" where
  "slotsAt Key_high_slots f = high_slots f"
| "slotsAt Key_mid_slots f = mid_slots f"
| "slotsAt Key_low_slots f = low_slots f"
| "slotsAt Key_rig_slots f = rig_slots f"
| "slotsAt Key_subsystem_slots f = subsystem_slots f"

fun setSlotsAt :: "SlotKey \<Rightarrow> FittedModule option list \<Rightarrow> Fitting \<Rightarrow> Fitting" where
  "setSlotsAt Key_high_slots xs f = f\<lparr>high_slots := xs\<rparr>"
| "setSlotsAt Key_mid_slots xs f = f\<lparr>mid_slots := xs\<rparr>"
| "setSlotsAt Key_low_slots xs f = f\<lparr>low_slots := xs\<rparr>"
| "setSlotsAt Key_rig_slots xs f = f\<lparr>rig_slots := xs\<rparr>"
| "setSlotsAt Key_subsystem_slots xs f = f\<lparr>subsystem_slots := xs\<rparr>"

text \<open>
  \<open>cloneFitting\<close> is a JSON round trip, which yields a structurally equal value that
  shares nothing with its argument; on values it is the identity.
\<close>

definition cloneFitting :: "Fitting \<Rightarrow> Fitting" where
  "cloneFitting f = f"

definition computeStatsWithSkills ::
    "EveType \<Rightarrow> Fitting \<Rightarrow> SkillMode \<Rightarrow> SkillMap option \<Rightarrow> ShipStats \<times> SkillDeltas option" where
  "computeStatsWithSkills ship fit mode skillMap0 =
     (let stats0 = calculateShipStats ship fit
      in if mode = SkillNone then (stats0, None)
         else
           (case (if mode = AllV then Some allLevelVSkillMap else skillMap0) of
              None \<Rightarrow> (stats0, None)
            | Some skills \<Rightarrow>
                (let (stats1, deltas) = applySkillBonuses stats0 skills
                 in (stats1, Some deltas))))"

definition initialStore :: "SkillMode \<Rightarrow> FittingStore" where
  "initialStore mode =
     \<lparr>fitting = None, shipType = None, stats = None, skillMode = mode, skillMap = None,
      skillDeltas = None, savedFittings = [], activeSlot = None,
      moduleSearchOpen = False, eftImportOpen = False, dirty = False\<rparr>"

text \<open>\<open>slotCounts?.field ?? d\<close>.\<close>

definition countOr :: "SlotCounts option \<Rightarrow> (SlotCounts \<Rightarrow> nat option) \<Rightarrow> nat \<Rightarrow> nat" where
  "countOr slotCounts field d =
     (case slotCounts of
        None \<Rightarrow> d
      | Some c \<Rightarrow> (case field c of None \<Rightarrow> d | Some n \<Rightarrow> n))"

definition setShip ::
    "string \<Rightarrow> string \<Rightarrow> EveType \<Rightarrow> SlotCounts option \<Rightarrow> FittingStore \<Rightarrow> FittingStore" where
  "setShip newId now ship slotCounts st =
     (let fit0 = createEmptyFitting newId now (et_type_id ship) (et_name ship)
                   (countOr slotCounts highSlots 8) (countOr slotCounts midSlots 5)
                   (countOr slotCounts lowSlots 5) (countOr slotCounts rigSlots 3);
          fit1 = (if countOr slotCounts subsystemSlots 0 \<noteq> 0
                  then fit0\<lparr>subsystem_slots :=
                              replicate (countOr slotCounts subsystemSlots 0) None\<rparr>
                  else fit0);
          (stats1, deltas) = computeStatsWithSkills ship fit1 (skillMode st) (skillMap st)
      in st\<lparr>fitting := Some fit1, shipType := Some ship, stats := Some stats1,
             skillDeltas := deltas, dirty := False\<rparr>)"

text \<open>The module object \<open>{...moduleData, id, slot_type, slot_index}\<close>.\<close>

definition placed :: "ModuleData \<Rightarrow> string \<Rightarrow> SlotType \<Rightarrow> int \<Rightarrow> FittedModule" where
  "placed moduleData newId slotType index =
     ModuleData.extend moduleData
       (FittedModule.fields newId slotType index)"

definition addModule ::
    "string \<Rightarrow> string \<Rightarrow> SlotType \<Rightarrow> int \<Rightarrow> ModuleData \<Rightarrow> FittingStore \<Rightarrow> FittingStore" where
  "addModule newId now slotType index moduleData st =
     (case (fitting st, shipType st) of
        (Some fit, Some ship) \<Rightarrow>
          (case getSlotArrayKey slotType of
             None \<Rightarrow> st
           | Some key \<Rightarrow>
               (let updated = cloneFitting fit;
                    slots = slotsAt key updated
                in if index < 0 \<or> index \<ge> int (length slots) then st
                   else
                     (let slots1 = slots[nat index := Some (placed moduleData newId slotType index)];
                          updated1 = (setSlotsAt key slots1 updated)\<lparr>updated_at := now\<rparr>;
                          (stats1, deltas) =
                             computeStatsWithSkills ship updated1 (skillMode st) (skillMap st)
                      in st\<lparr>fitting := Some updated1, stats := Some stats1,
                             skillDeltas := deltas, dirty := True\<rparr>)))
      | _ \<Rightarrow> st)"

text \<open>Effect ids \<open>42\<close> (turretFitted) and \<open>40\<close> (launcherFitted).\<close>

definition countHardpointsUsed :: "bool \<Rightarrow> bool \<Rightarrow> FittedModule option list \<Rightarrow> nat" where
  "countHardpointsUsed isTurret isLauncher slots =
     foldl (\<lambda>used s.
              case s of
                None \<Rightarrow> used
              | Some m \<Rightarrow>
                  (let used1 = (if isTurret \<and> 42 \<in> set (effects m) then used + 1 else used)
                   in if isLauncher \<and> 40 \<in> set (effects m) then used1 + 1 else used1))
           0 slots"

text \<open>
  The filling loop of \<open>fillSlots\<close> from position \<open>i\<close> on, over the slots from \<open>i\<close> to the
  end; it returns those slots after the loop and the final value of \<open>filled\<close>. The
  \<open>k\<close>-th identifier that the loop draws from \<open>generateId\<close> is \<open>genId k\<close>.
\<close>

fun fillLoop ::
    "ModuleData \<Rightarrow> (nat \<Rightarrow> string) \<Rightarrow> SlotType \<Rightarrow> bool \<Rightarrow> nat \<Rightarrow> real \<Rightarrow>
     nat \<Rightarrow> nat \<Rightarrow> FittedModule option list \<Rightarrow> FittedModule option list \<times> nat" where
  "fillLoop moduleData genId slotType isHardpoint hardpointsUsed hardpointLimit i filled [] =
     ([], filled)"
| "fillLoop moduleData genId slotType isHardpoint hardpointsUsed hardpointLimit i filled
     (Some m # rest) =
     (let (rest1, n) = fillLoop moduleData genId slotType isHardpoint hardpointsUsed
                         hardpointLimit (i + 1) filled rest
      in (Some m # rest1, n))"
| "fillLoop moduleData genId slotType isHardpoint hardpointsUsed hardpointLimit i filled
     (None # rest) =
     (if isHardpoint \<and> real (hardpointsUsed + filled) \<ge> hardpointLimit
      then (None # rest, filled)
      else
        (let (rest1, n) = fillLoop moduleData genId slotType isHardpoint hardpointsUsed
                            hardpointLimit (i + 1) (filled + 1) rest
         in (Some (placed moduleData (genId filled) slotType (int i)) # rest1, n)))"

definition fillSlots ::
    "(nat \<Rightarrow> string) \<Rightarrow> string \<Rightarrow> SlotType \<Rightarrow> ModuleData \<Rightarrow> FittingStore \<Rightarrow> FittingStore" where
  "fillSlots genId now slotType moduleData st =
     (case (fitting st, shipType st, stats st) of
        (Some fit, Some ship, Some stats0) \<Rightarrow>
          (case getSlotArrayKey slotType of
             None \<Rightarrow> st
           | Some key \<Rightarrow>
               (let updated = cloneFitting fit;
                    slots = slotsAt key updated;
                    isTurret = (42 \<in> set (effects moduleData));
                    isLauncher = (40 \<in> set (effects moduleData));
                    hardpointLimit =
                      (if isTurret then turret_hardpoints stats0
                       else if isLauncher then launcher_hardpoints stats0
                       else real (length slots));
                    hardpointsUsed =
                      (if isTurret \<or> isLauncher
                       then countHardpointsUsed isTurret isLauncher slots
                       else 0);
                    (slots1, filled) =
                      fillLoop moduleData genId slotType (isTurret \<or> isLauncher)
                        hardpointsUsed hardpointLimit 0 0 slots
                in if filled = 0 then st
                   else
                     (let updated1 = (setSlotsAt key slots1 updated)\<lparr>updated_at := now\<rparr>;
                          (stats1, deltas) =
                             computeStatsWithSkills ship updated1 (skillMode st) (skillMap st)
                      in st\<lparr>fitting := Some updated1, stats := Some stats1,
                             skillDeltas := deltas, dirty := True\<rparr>)))
      | _ \<Rightarrow> st)"

definition removeModule :: "string \<Rightarrow> SlotType \<Rightarrow> int \<Rightarrow> FittingStore \<Rightarrow> FittingStore" where
  "removeModule now slotType index st =
     (case (fitting st, shipType st) of
        (Some fit, Some ship) \<Rightarrow>
          (case getSlotArrayKey slotType of
             None \<Rightarrow> st
           | Some key \<Rightarrow>
               (let updated = cloneFitting fit;
                    slots = slotsAt key updated
                in if index < 0 \<or> index \<ge> int (length slots) then st
                   else
                     (let slots1 = slots[nat index := None];
                          updated1 = (setSlotsAt key slots1 updated)\<lparr>updated_at := now\<rparr>;
                          (stats1, deltas) =
                             computeStatsWithSkills ship updated1 (skillMode st) (skillMap st)
                      in st\<lparr>fitting := Some updated1, stats := Some stats1,
                             skillDeltas := deltas, dirty := True\<rparr>)))
      | _ \<Rightarrow> st)"

text \<open>
  \<open>slots[index]\<close> read from an array: \<open>undefined\<close> outside the array, which the source's
  \<open>if (!mod) return\<close> treats like an empty slot.
\<close>

definition slotAt :: "FittedModule option list \<Rightarrow> int \<Rightarrow> FittedModule option" where
  "slotAt slots index =
     (if index < 0 \<or> index \<ge> int (length slots) then None else slots ! nat index)"

definition cycleStates :: "ModuleState list" where
  "cycleStates = [Active, Passive, Offline]"

fun indexOf :: "'a list \<Rightarrow> 'a \<Rightarrow> int" where
  "indexOf [] x = -1"
| "indexOf (y # ys) x =
     (if y = x then 0 else (let r = indexOf ys x in if r < 0 then -1 else r + 1))"

definition nextState :: "ModuleState \<Rightarrow> ModuleState" where
  "nextState s =
     cycleStates ! nat ((indexOf cycleStates s + 1) mod int (length cycleStates))"

definition toggleModuleState :: "string \<Rightarrow> SlotType \<Rightarrow> int \<Rightarrow> FittingStore \<Rightarrow> FittingStore" where
  "toggleModuleState now slotType index st =
     (case (fitting st, shipType st) of
        (Some fit, Some ship) \<Rightarrow>
          (case getSlotArrayKey slotType of
             None \<Rightarrow> st
           | Some key \<Rightarrow>
               (let updated = cloneFitting fit;
                    slots = slotsAt key updated
                in case slotAt slots index of
                     None \<Rightarrow> st
                   | Some m \<Rightarrow>
                       (let slots1 = slots[nat index := Some (m\<lparr>state := nextState (state m)\<rparr>)];
                            updated1 = (setSlotsAt key slots1 updated)\<lparr>updated_at := now\<rparr>;
                            (stats1, deltas) =
                               computeStatsWithSkills ship updated1 (skillMode st) (skillMap st)
                        in st\<lparr>fitting := Some updated1, stats := Some stats1,
                               skillDeltas := deltas, dirty := True\<rparr>)))
      | _ \<Rightarrow> st)"

definition setModuleCharge ::
    "string \<Rightarrow> SlotType \<Rightarrow> int \<Rightarrow> Charge option \<Rightarrow> FittingStore \<Rightarrow> FittingStore" where
  "setModuleCharge now slotType index charge0 st =
     (case (fitting st, shipType st) of
        (Some fit, Some ship) \<Rightarrow>
          (case getSlotArrayKey slotType of
             None \<Rightarrow> st
           | Some key \<Rightarrow>
               (let updated = cloneFitting fit;
                    slots = slotsAt key updated
                in case slotAt slots index of
                     None \<Rightarrow> st
                   | Some m \<Rightarrow>
                       (let slots1 = slots[nat index := Some (m\<lparr>charge := charge0\<rparr>)];
                            updated1 = (setSlotsAt key slots1 updated)\<lparr>updated_at := now\<rparr>;
                            (stats1, deltas) =
                               computeStatsWithSkills ship updated1 (skillMode st) (skillMap st)
                        in st\<lparr>fitting := Some updated1, stats := Some stats1,
                               skillDeltas := deltas, dirty := True\<rparr>)))
      | _ \<Rightarrow> st)"

definition addDrone :: "string \<Rightarrow> string \<Rightarrow> ModuleData \<Rightarrow> FittingStore \<Rightarrow> FittingStore" where
  "addDrone newId now droneData st =
     (case (fitting st, shipType st) of
        (Some fit, Some ship) \<Rightarrow>
          (let updated = cloneFitting fit;
               updated1 = updated\<lparr>drones :=
                             drones updated @
                               [placed droneData newId Drone (int (length (drones updated)))],
                           updated_at := now\<rparr>;
               (stats1, deltas) =
                  computeStatsWithSkills ship updated1 (skillMode st) (skillMap st)
           in st\<lparr>fitting := Some updated1, stats := Some stats1,
                  skillDeltas := deltas, dirty := True\<rparr>)
      | _ \<Rightarrow> st)"

text \<open>
  \<open>xs.splice(index, 1)\<close>: a negative start counts from the end (and stops at \<open>0\<close>), a start
  beyond the end removes nothing.
\<close>

definition splice1 :: "'a list \<Rightarrow> int \<Rightarrow> 'a list" where
  "splice1 xs index =
     (let len = int (length xs);
          start = (if index < 0 then max (len + index) 0 else min index len)
      in take (nat start) xs @ drop (nat start + 1) xs)"

definition reindex :: "FittedModule list \<Rightarrow> FittedModule list" where
  "reindex ds = map (\<lambda>(i, d). d\<lparr>slot_index := int i\<rparr>) (enumerate 0 ds)"

definition removeDrone :: "string \<Rightarrow> int \<Rightarrow> FittingStore \<Rightarrow> FittingStore" where
  "removeDrone now index st =
     (case (fitting st, shipType st) of
        (Some fit, Some ship) \<Rightarrow>
          (let updated = cloneFitting fit;
               updated1 = updated\<lparr>drones := reindex (splice1 (drones updated) index),
                           updated_at := now\<rparr>;
               (stats1, deltas) =
                  computeStatsWithSkills ship updated1 (skillMode st) (skillMap st)
           in st\<lparr>fitting := Some updated1, stats := Some stats1,
                  skillDeltas := deltas, dirty := True\<rparr>)
      | _ \<Rightarrow> st)"

definition importFitting :: "Fitting \<Rightarrow> EveType \<Rightarrow> FittingStore \<Rightarrow> FittingStore" where
  "importFitting fit ship st =
     (let (stats1, deltas) = computeStatsWithSkills ship fit (skillMode st) (skillMap st)
      in st\<lparr>fitting := Some fit, shipType := Some ship, stats := Some stats1,
             skillDeltas := deltas, dirty := False\<rparr>)"


section \<open>Skill plan builder (src/lib/skill-plan.ts)\<close>

text \<open>
  Skill ids and levels are read from attribute values and are numbers. A JavaScript
  \<open>Map\<close> is an association list in insertion order: \<open>AList.update\<close> overwrites the value
  of a present key in place and appends an absent key, as \<open>Map.prototype.set\<close> does.

  A lookup \<open>getType(id)\<close> goes to the network and either yields a type or fails, each
  call on its own. The builder calls it at four places (module types, prerequisite
  resolution, skill names, support skill names), and at each place at most once for an
  id; the model takes the outcome of the lookups of each place as a function of the id.
  The table \<open>SKILL_REQ_ATTRS\<close> of attribute-id pairs is not part of the sources at hand
  and is an argument.
\<close>

record Lookups =
  moduleLookup :: "real \<Rightarrow> EveType option"
  prereqLookup :: "real \<Rightarrow> EveType option"
  nameLookup :: "real \<Rightarrow> EveType option"
  supportLookup :: "real \<Rightarrow> EveType option"

record SkillRequirement =
  skill_type_id :: real
  skill_name :: string
  required_level :: real

record SkillPlanStage =
  stage_name :: string
  skills :: "SkillRequirement list"
  total :: nat

record SkillPlan =
  stages :: "SkillPlanStage list"

definition extractSkillReqs :: "(nat \<times> nat) list \<Rightarrow> EveType \<Rightarrow> (real \<times> real) list" where
  "extractSkillReqs SKILL_REQ_ATTRS type =
     (let attrMap = map_of (rev (dogma_attributes type))
      in List.map_filter
           (\<lambda>(typeAttr, levelAttr).
              case (attrMap typeAttr, attrMap levelAttr) of
                (Some skillTypeId, Some level) \<Rightarrow>
                  if skillTypeId \<noteq> 0 \<and> skillTypeId > 0 \<and> level \<noteq> 0 \<and> level > 0
                  then Some (skillTypeId, level) else None
              | _ \<Rightarrow> None)
           SKILL_REQ_ATTRS)"

text \<open>\<open>if (!existing || level > existing) map.set(id, level)\<close>.\<close>

definition keepMax :: "(real \<times> real) list \<Rightarrow> real \<times> real \<Rightarrow> (real \<times> real) list" where
  "keepMax reqs req =
     (case map_of reqs (fst req) of
        None \<Rightarrow> AList.update (fst req) (snd req) reqs
      | Some existing \<Rightarrow>
          if existing = 0 \<or> snd req > existing
          then AList.update (fst req) (snd req) reqs
          else reqs)"

definition notASkill :: "EveType \<Rightarrow> bool" where
  "notASkill skillType =
     (case et_category_id skillType of None \<Rightarrow> False | Some c \<Rightarrow> c \<noteq> CATEGORY_SKILL)"

text \<open>
  The loop over the prerequisites of one skill in \<open>resolvePrerequisites\<close>, with the
  recursive call for each prerequisite unfolded in place: record the prerequisite, return
  from the call if it was visited, mark it, look it up, and descend into its own
  prerequisites before the next one. The recursion follows the lookups and need not end,
  so it takes fuel and yields \<open>None\<close> when the fuel runs out.
\<close>

fun resolveLoop ::
    "nat \<Rightarrow> (real \<Rightarrow> EveType option) \<Rightarrow> (nat \<times> nat) list \<Rightarrow> (real \<times> real) list \<Rightarrow>
     real list \<Rightarrow> (real \<times> real) list \<Rightarrow> (real list \<times> (real \<times> real) list) option" where
  "resolveLoop 0 getType reqAttrs prereqs visited result = None"
| "resolveLoop (Suc fuel) getType reqAttrs [] visited result = Some (visited, result)"
| "resolveLoop (Suc fuel) getType reqAttrs (prereq # rest) visited result =
     (let result1 = keepMax result prereq
      in if fst prereq \<in> set visited
         then resolveLoop fuel getType reqAttrs rest visited result1
         else
           (let visited1 = visited @ [fst prereq]
            in case getType (fst prereq) of
                 None \<Rightarrow> resolveLoop fuel getType reqAttrs rest visited1 result1
               | Some skillType \<Rightarrow>
                   if notASkill skillType
                   then resolveLoop fuel getType reqAttrs rest visited1 result1
                   else
                     (case resolveLoop fuel getType reqAttrs
                             (extractSkillReqs reqAttrs skillType) visited1 result1 of
                        None \<Rightarrow> None
                      | Some (visited2, result2) \<Rightarrow>
                          resolveLoop fuel getType reqAttrs rest visited2 result2)))"

text \<open>
  The body of \<open>resolvePrerequisites\<close> for a direct requirement, after the visited check and
  the marking that each call started by \<open>Promise.allSettled\<close> performs before its first
  \<open>await\<close>.
\<close>

definition resolveRoot ::
    "nat \<Rightarrow> (real \<Rightarrow> EveType option) \<Rightarrow> (nat \<times> nat) list \<Rightarrow> real \<Rightarrow>
     real list \<Rightarrow> (real \<times> real) list \<Rightarrow> (real list \<times> (real \<times> real) list) option" where
  "resolveRoot fuel getType reqAttrs skillTypeId visited result =
     (case getType skillTypeId of
        None \<Rightarrow> Some (visited, result)
      | Some skillType \<Rightarrow>
          if notASkill skillType then Some (visited, result)
          else resolveLoop fuel getType reqAttrs (extractSkillReqs reqAttrs skillType)
                 visited result)"

text \<open>
  The calls for the direct requirements interleave at their lookups; the model runs them
  one after the other in the order of the requirements.
\<close>

fun resolveRoots ::
    "nat \<Rightarrow> (real \<Rightarrow> EveType option) \<Rightarrow> (nat \<times> nat) list \<Rightarrow> real list \<Rightarrow>
     real list \<Rightarrow> (real \<times> real) list \<Rightarrow> (real list \<times> (real \<times> real) list) option" where
  "resolveRoots fuel getType reqAttrs [] visited result = Some (visited, result)"
| "resolveRoots fuel getType reqAttrs (skillId # skillIds) visited result =
     (case resolveRoot fuel getType reqAttrs skillId visited result of
        None \<Rightarrow> None
      | Some (visited1, result1) \<Rightarrow>
          resolveRoots fuel getType reqAttrs skillIds visited1 result1)"

text \<open>A \<open>Set\<close> in insertion order.\<close>

definition setAdd :: "'a list \<Rightarrow> 'a \<Rightarrow> 'a list" where
  "setAdd ids x = (if x \<in> set ids then ids else ids @ [x])"

definition getAllModuleTypeIds :: "Fitting \<Rightarrow> real list" where
  "getAllModuleTypeIds fit =
     (let ids1 = foldl (\<lambda>ids s. case s of None \<Rightarrow> ids | Some m \<Rightarrow> setAdd ids (real (type_id m))) []
                   (high_slots fit @ mid_slots fit @ low_slots fit @ rig_slots fit @
                    subsystem_slots fit)
      in foldl (\<lambda>ids drone. setAdd ids (real (type_id drone))) ids1 (drones fit))"

text \<open>
  \<open>Array.prototype.sort\<close> with the comparator \<open>localeCompare\<close> on the names: a stable sort;
  the collation is an argument.
\<close>

fun insertSorted ::
    "(string \<Rightarrow> string \<Rightarrow> int) \<Rightarrow> SkillRequirement \<Rightarrow> SkillRequirement list \<Rightarrow> SkillRequirement list" where
  "insertSorted localeCompare x [] = [x]"
| "insertSorted localeCompare x (y # ys) =
     (if localeCompare (skill_name y) (skill_name x) \<le> 0
      then y # insertSorted localeCompare x ys
      else x # y # ys)"

definition sortByName ::
    "(string \<Rightarrow> string \<Rightarrow> int) \<Rightarrow> SkillRequirement list \<Rightarrow> SkillRequirement list" where
  "sortByName localeCompare xs = foldl (\<lambda>acc x. insertSorted localeCompare x acc) [] xs"

text \<open>The loop that builds a stage's skills from a map of levels and the names found.\<close>

definition namedSkills :: "(real \<times> string) list \<Rightarrow> (real \<times> real) list \<Rightarrow> SkillRequirement list" where
  "namedSkills skillNames levels =
     List.map_filter
       (\<lambda>(skillId, level).
          case map_of skillNames skillId of
            None \<Rightarrow> None
          | Some name \<Rightarrow>
              if name = [] then None
              else Some \<lparr>skill_type_id = skillId, skill_name = name, required_level = level\<rparr>)
       levels"

definition resolveNames ::
    "(real \<Rightarrow> EveType option) \<Rightarrow> real list \<Rightarrow> (real \<times> string) list \<Rightarrow> (real \<times> string) list" where
  "resolveNames getType ids skillNames =
     foldl (\<lambda>names i. case getType i of
                          None \<Rightarrow> names
                        | Some t \<Rightarrow> AList.update i (et_name t) names)
       skillNames ids"

definition supportFloor :: "(real \<times> real) list \<Rightarrow> real \<Rightarrow> (real \<times> real) list" where
  "supportFloor stage2Map supportId =
     (case map_of stage2Map supportId of
        None \<Rightarrow> AList.update supportId 4 stage2Map
      | Some existing \<Rightarrow>
          if existing = 0 \<or> existing < 4 then AList.update supportId 4 stage2Map
          else stage2Map)"

text \<open>Steps 3 to 6 of \<open>buildSkillPlan\<close>, from the resolved requirement map on.\<close>

definition planStages ::
    "Lookups \<Rightarrow> (string \<Rightarrow> string \<Rightarrow> int) \<Rightarrow> (real \<times> real) list \<Rightarrow> SkillPlan" where
  "planStages lookups localeCompare allReqs =
     (let supportIds = map real SUPPORT_SKILL_IDS;
          skillNames = resolveNames (nameLookup lookups) (map fst allReqs) [];
          stage1Skills = sortByName localeCompare (namedSkills skillNames allReqs);
          stage2Map0 = foldl (\<lambda>m (skillId, level). AList.update skillId (max level 4) m) []
                         allReqs;
          stage2Map = foldl supportFloor stage2Map0 supportIds;
          skillNames2 = resolveNames (supportLookup lookups)
                          (filter (\<lambda>i. map_of skillNames i = None) supportIds) skillNames;
          stage2Skills = sortByName localeCompare (namedSkills skillNames2 stage2Map);
          stage3Skills = map (\<lambda>s. s\<lparr>required_level := 5\<rparr>) stage2Skills
      in \<lparr>stages =
            [\<lparr>stage_name = ''Minimum'', skills = stage1Skills, total = length stage1Skills\<rparr>,
             \<lparr>stage_name = ''Recommended'', skills = stage2Skills, total = length stage2Skills\<rparr>,
             \<lparr>stage_name = ''Mastery'', skills = stage3Skills, total = length stage3Skills\<rparr>]\<rparr>)"

definition buildSkillPlan ::
    "nat \<Rightarrow> Lookups \<Rightarrow> (nat \<times> nat) list \<Rightarrow> (string \<Rightarrow> string \<Rightarrow> int) \<Rightarrow>
     EveType \<Rightarrow> Fitting \<Rightarrow> SkillPlan option" where
  "buildSkillPlan fuel lookups reqAttrs localeCompare ship fit =
     (let moduleTypes = List.map_filter (moduleLookup lookups) (getAllModuleTypeIds fit);
          allTypes = ship # moduleTypes;
          directReqs = foldl keepMax [] (concat (map (extractSkillReqs reqAttrs) allTypes))
      in case resolveRoots fuel (prereqLookup lookups) reqAttrs (map fst directReqs)
                (map fst directReqs) directReqs of
           None \<Rightarrow> None
         | Some (visited, allReqs) \<Rightarrow> Some (planStages lookups localeCompare allReqs))"

section \<open>EFT parser and serializer (src/lib/eft-parser.ts)\<close>

text \<open>
  Text is a \<^typ>\<open>string\<close>, a list of 8-bit characters; the model covers the text whose code
  units are below 256. There the white space of \<open>trim()\<close> and of \<open>\s\<close> is tab, line feed,
  vertical tab, form feed, carriage return, space and no-break space, and the line
  terminators that \<open>.\<close> does not match are line feed and carriage return.
\<close>

definition isSpace :: "char \<Rightarrow> bool" where
  "isSpace c = (of_char c \<in> {9, 10, 11, 12, 13, 32, 160 :: nat})"

definition isLineTerminator :: "char \<Rightarrow> bool" where
  "isLineTerminator c = (of_char c \<in> {10, 13 :: nat})"

definition isDigit :: "char \<Rightarrow> bool" where
  "isDigit c = (48 \<le> (of_char c :: nat) \<and> (of_char c :: nat) \<le> 57)"

definition newline :: char where
  "newline = CHR 0x0A"

definition trim :: "string \<Rightarrow> string" where
  "trim s = rev (dropWhile isSpace (rev (dropWhile isSpace s)))"

text \<open>\<open>s.split("\n")\<close>: always at least one piece.\<close>

fun splitLines :: "string \<Rightarrow> string list" where
  "splitLines [] = [[]]"
| "splitLines (c # cs) =
     (if c = newline then [] # splitLines cs
      else (case splitLines cs of
              [] \<Rightarrow> [[c]]
            | l # ls \<Rightarrow> (c # l) # ls))"


record EFTLine =
  line_name :: string
  line_charge :: "string option"
  line_quantity :: "nat option"

record ParsedEFT =
  p_shipName :: string
  p_fitName :: string
  p_lowSlots :: "EFTLine list"
  p_midSlots :: "EFTLine list"
  p_highSlots :: "EFTLine list"
  p_rigSlots :: "EFTLine list"
  p_subsystems :: "EFTLine list"
  p_drones :: "EFTLine list"
  p_cargo :: "EFTLine list"

datatype EFTError = EmptyText | InvalidHeader string

subsection \<open>The header pattern \<open>/^\[(.+?),\s*(.+?)\]$/\<close>\<close>

text \<open>
  The matcher follows the backtracking search of the pattern. \<open>matchFitName r\<close> is
  \<open>(.+?)\]$\<close> on the rest \<open>r\<close> of the line: the group is lazy, but the end anchor leaves it
  one length only, all of \<open>r\<close> but a final bracket.
\<close>

definition matchFitName :: "string \<Rightarrow> string option" where
  "matchFitName r =
     (if length r \<ge> 2 \<and> last r = CHR '']'' \<and> list_all (\<lambda>c. \<not> isLineTerminator c) (butlast r)
      then Some (butlast r) else None)"

text \<open>\<open>\s*\<close> is greedy: it first takes all \<open>k\<close> leading spaces and gives them back one by one.\<close>

fun matchAfterComma :: "nat \<Rightarrow> string \<Rightarrow> string option" where
  "matchAfterComma 0 r = matchFitName r"
| "matchAfterComma (Suc k) r =
     (case matchFitName (drop (Suc k) r) of
        Some b \<Rightarrow> Some b
      | None \<Rightarrow> matchAfterComma k r)"

text \<open>
  The first group is lazy: with \<open>a\<close> consumed it tries to go on with the comma, and takes
  one more character, which must not be a line terminator, when that fails.
\<close>

fun matchShipName :: "string \<Rightarrow> string \<Rightarrow> (string \<times> string) option" where
  "matchShipName a [] = None"
| "matchShipName a (c # r) =
     (case (if c = CHR '','' then matchAfterComma (length (takeWhile isSpace r)) r else None) of
        Some b \<Rightarrow> Some (a, b)
      | None \<Rightarrow> if isLineTerminator c then None else matchShipName (a @ [c]) r)"

definition matchHeader :: "string \<Rightarrow> (string \<times> string) option" where
  "matchHeader h =
     (case h of
        c # d # r \<Rightarrow>
          if c = CHR ''['' \<and> \<not> isLineTerminator d then matchShipName [d] r else None
      | _ \<Rightarrow> None)"

text \<open>
  What the pattern denotes: an opening bracket, a non-empty ship part, a comma, white
  space, a non-empty fit part and a closing bracket at the end, with no line terminator
  in either part.
\<close>

definition headerShape :: "string \<Rightarrow> bool" where
  "headerShape h =
     (\<exists>a w b. h = CHR ''['' # a @ CHR '','' # w @ b @ [CHR '']''] \<and>
        a \<noteq> [] \<and> b \<noteq> [] \<and> list_all isSpace w \<and>
        list_all (\<lambda>c. \<not> isLineTerminator c) a \<and> list_all (\<lambda>c. \<not> isLineTerminator c) b)"

subsection \<open>Lines\<close>

definition startsWith :: "string \<Rightarrow> string \<Rightarrow> bool" where
  "startsWith s p = (take (length p) s = p)"

text \<open>\<open>\s+x(\d+)$\<close> on the rest of a line; the result is the digits.\<close>

definition matchQuantitySuffix :: "string \<Rightarrow> string option" where
  "matchQuantitySuffix r =
     (if takeWhile isSpace r \<noteq> []
      then (case dropWhile isSpace r of
              c # ds \<Rightarrow> if c = CHR ''x'' \<and> ds \<noteq> [] \<and> list_all isDigit ds then Some ds else None
            | [] \<Rightarrow> None)
      else None)"

text \<open>
  \<open>/^(.+?)\s+x(\d+)$/\<close>: the lazy first group grows by one character, not a line
  terminator, until the rest matches.
\<close>

fun matchQuantity :: "string \<Rightarrow> string \<Rightarrow> (string \<times> string) option" where
  "matchQuantity a [] = None"
| "matchQuantity a (c # r) =
     (if isLineTerminator c then None
      else (case matchQuantitySuffix r of
              Some ds \<Rightarrow> Some (a @ [c], ds)
            | None \<Rightarrow> matchQuantity (a @ [c]) r))"

text \<open>\<open>parseInt(digits, 10)\<close> on a string of decimal digits.\<close>

definition parseInt :: "string \<Rightarrow> nat" where
  "parseInt ds = foldl (\<lambda>n c. 10 * n + (of_char c - 48)) 0 ds"

text \<open>\<open>s.indexOf(",")\<close>, \<open>None\<close> for \<open>-1\<close>.\<close>

fun indexOfComma :: "string \<Rightarrow> nat option" where
  "indexOfComma [] = None"
| "indexOfComma (c # cs) =
     (if c = CHR '','' then Some 0 else map_option Suc (indexOfComma cs))"

definition parseEFTLine :: "string \<Rightarrow> EFTLine option" where
  "parseEFTLine line =
     (if line = [] \<or> startsWith line ''[Empty'' then None
      else
        (case matchQuantity [] line of
           Some (g1, g2) \<Rightarrow>
             (let namePart = trim g1;
                  quantity = parseInt g2
              in case indexOfComma namePart of
                   Some chargeIdx \<Rightarrow>
                     Some \<lparr>line_name = trim (take chargeIdx namePart),
                           line_charge = Some (trim (drop (chargeIdx + 1) namePart)),
                           line_quantity = Some quantity\<rparr>
                 | None \<Rightarrow>
                     Some \<lparr>line_name = namePart, line_charge = None,
                           line_quantity = Some quantity\<rparr>)
         | None \<Rightarrow>
             (case indexOfComma line of
                Some chargeIdx \<Rightarrow>
                  Some \<lparr>line_name = trim (take chargeIdx line),
                        line_charge = Some (trim (drop (chargeIdx + 1) line)),
                        line_quantity = None\<rparr>
              | None \<Rightarrow>
                  Some \<lparr>line_name = trim line, line_charge = None, line_quantity = None\<rparr>)))"

definition emptySlotMarkers :: "string list" where
  "emptySlotMarkers =
     [''[Empty Low slot]'', ''[Empty Mid slot]'', ''[Empty High slot]'', ''[Empty Rig slot]'',
      ''[Empty Subsystem slot]'']"

text \<open>
  The loop over the lines after the header; the state is \<open>sections\<close> and
  \<open>currentSection\<close>.
\<close>

fun parseLines ::
    "EFTLine list list \<Rightarrow> EFTLine list \<Rightarrow> string list \<Rightarrow> EFTLine list list \<times> EFTLine list" where
  "parseLines sections currentSection [] = (sections, currentSection)"
| "parseLines sections currentSection (raw # rest) =
     (let line = trim raw
      in if line = [] \<or> line \<in> set emptySlotMarkers
         then
           (if line = []
            then (if currentSection \<noteq> []
                  then parseLines (sections @ [currentSection]) [] rest
                  else parseLines sections currentSection rest)
            else parseLines sections currentSection rest)
         else
           (case parseEFTLine line of
              Some parsed \<Rightarrow> parseLines sections (currentSection @ [parsed]) rest
            | None \<Rightarrow> parseLines sections currentSection rest))"

text \<open>\<open>sections[i] || []\<close>.\<close>

definition sectionAt :: "EFTLine list list \<Rightarrow> nat \<Rightarrow> EFTLine list" where
  "sectionAt sections i = (if i < length sections then sections ! i else [])"

definition parseEFT :: "string \<Rightarrow> EFTError + ParsedEFT" where
  "parseEFT eftText =
     (case splitLines (trim eftText) of
        [] \<Rightarrow> Inl EmptyText
      | first # rest \<Rightarrow>
          (let headerLine = trim first
           in case matchHeader headerLine of
                None \<Rightarrow> Inl (InvalidHeader headerLine)
              | Some (g1, g2) \<Rightarrow>
                  (let shipName = trim g1;
                       fitName = trim g2;
                       (sections0, currentSection) = parseLines [] [] rest;
                       sections = (if currentSection \<noteq> []
                                   then sections0 @ [currentSection] else sections0)
                   in Inr \<lparr>p_shipName = shipName,
                           p_fitName = fitName,
                           p_lowSlots = sectionAt sections 0,
                           p_midSlots = sectionAt sections 1,
                           p_highSlots = sectionAt sections 2,
                           p_rigSlots = sectionAt sections 3,
                           p_subsystems = sectionAt sections 4,
                           p_drones = sectionAt sections 5,
                           p_cargo = sectionAt sections 6\<rparr>)))"

subsection \<open>Serializer\<close>










subsection \<open>Measuring a slot array\<close>

definition emptySlots :: "FittedModule option list \<Rightarrow> nat" where
  "emptySlots xs = length (filter (\<lambda>s. s = None) xs)"

definition flaggedModules :: "nat \<Rightarrow> FittedModule option list \<Rightarrow> nat" where
  "flaggedModules e xs =
     length (filter (\<lambda>s. case s of None \<Rightarrow> False | Some m \<Rightarrow> e \<in> set (effects m)) xs)"

text \<open>Every module held in a rig or subsystem slot is passive.\<close>

definition passiveSlot :: "FittedModule option \<Rightarrow> bool" where
  "passiveSlot s = (case s of None \<Rightarrow> True | Some m \<Rightarrow> state m = Passive)"

definition rigSubPassive :: "Fitting \<Rightarrow> bool" where
  "rigSubPassive fit = list_all passiveSlot (rig_slots fit @ subsystem_slots fit)"

definition emptyFitting :: "Fitting \<Rightarrow> bool" where
  "emptyFitting fit =
     (list_all (\<lambda>s. s = None)
        (high_slots fit @ mid_slots fit @ low_slots fit @ rig_slots fit @ subsystem_slots fit)
      \<and> drones fit = [] \<and> cargo fit = [])"

text \<open>
  The stores reachable from an empty fitting when the store is driven the way the
  components drive it (ModuleSearch, SlotItem, EFTImportModal): a module placed or filled
  into a rig or subsystem slot is passive, the state toggle is never invoked for a rig or
  subsystem slot, and an imported fitting has passive rigs and subsystems.
\<close>

inductive guardedReachable :: "FittingStore \<Rightarrow> bool" where
  start: "fitting st = Some fit \<Longrightarrow> emptyFitting fit \<Longrightarrow> guardedReachable st"
| add: "guardedReachable st \<Longrightarrow>
        (slotType = Rig \<or> slotType = Subsystem \<longrightarrow> state moduleData = Passive) \<Longrightarrow>
        guardedReachable (addModule newId now slotType index moduleData st)"
| fill: "guardedReachable st \<Longrightarrow>
         (slotType = Rig \<or> slotType = Subsystem \<longrightarrow> state moduleData = Passive) \<Longrightarrow>
         guardedReachable (fillSlots genId now slotType moduleData st)"
| remove: "guardedReachable st \<Longrightarrow> guardedReachable (removeModule now slotType index st)"
| toggle: "guardedReachable st \<Longrightarrow> slotType \<noteq> Rig \<Longrightarrow> slotType \<noteq> Subsystem \<Longrightarrow>
           guardedReachable (toggleModuleState now slotType index st)"
| setCharge: "guardedReachable st \<Longrightarrow>
              guardedReachable (setModuleCharge now slotType index charge0 st)"
| addDrone: "guardedReachable st \<Longrightarrow> guardedReachable (addDrone newId now droneData st)"
| removeDrone: "guardedReachable st \<Longrightarrow> guardedReachable (removeDrone now index st)"
| importFit: "guardedReachable st \<Longrightarrow> rigSubPassive fit \<Longrightarrow>
           guardedReachable (importFitting fit ship st)"

subsection \<open>Example values\<close>

definition exampleShip :: EveType where
  "exampleShip =
     \<lparr>et_type_id = 24696, et_name = ''Hurricane'', et_group_id = 419,
      et_category_id = Some 6, mass = Some 10000000,
      dogma_attributes =
        [(ATTR_CPU, 400), (ATTR_POWERGRID, 1350), (ATTR_TURRET_SLOTS_LEFT, 4),
         (ATTR_LAUNCHER_SLOTS_LEFT, 2)],
      dogma_effects = []\<rparr>"

definition exampleStore :: FittingStore where
  "exampleStore = setShip ''fit-1'' ''t0'' exampleShip None (initialStore SkillNone)"

definition turretData :: ModuleData where
  "turretData =
     \<lparr>type_id = 2961, mod_name = ''720mm Howitzer Artillery II'', state = Active,
      charge = None, group_id = Some 55, category_id = Some 7,
      attributes = Map.empty, effects = [11, 42]\<rparr>"

definition rigData :: ModuleData where
  "rigData =
     \<lparr>type_id = 31790, mod_name = ''Medium Core Defense Field Extender I'', state = Passive,
      charge = None, group_id = Some 774, category_id = Some 7,
      attributes = Map.empty, effects = [2663]\<rparr>"

text \<open>The example ship with turrets placed in the first two high slots.\<close>

definition twoTurretStore :: FittingStore where
  "twoTurretStore =
     addModule ''m-2'' ''t2'' High 1 turretData
       (addModule ''m-1'' ''t1'' High 0 turretData exampleStore)"


text \<open>
  The slot-array part of \<open>fillSlots\<close>: the flags, the limit, the count of used hardpoints
  and the filling loop, as \<open>fillSlots\<close> computes them from the module, the stats snapshot
  and the category's slots.
\<close>

definition fillResult ::
    "ModuleData \<Rightarrow> (nat \<Rightarrow> string) \<Rightarrow> SlotType \<Rightarrow> ShipStats \<Rightarrow> FittedModule option list \<Rightarrow>
     FittedModule option list \<times> nat" where
  "fillResult md genId slotType s0 xs =
     (let isT = 42 \<in> set (effects md); isL = 40 \<in> set (effects md)
      in fillLoop md genId slotType (isT \<or> isL)
           (if isT \<or> isL then countHardpointsUsed isT isL xs else 0)
           (if isT then turret_hardpoints s0
            else if isL then launcher_hardpoints s0 else real (length xs))
           0 0 xs)"



definition rigSlotsOf :: "FittingStore \<Rightarrow> FittedModule option list" where
  "rigSlotsOf st = (case fitting st of None \<Rightarrow> [] | Some f \<Rightarrow> rig_slots f)"


definition storeInv :: "FittingStore \<Rightarrow> bool" where
  "storeInv st = (\<forall>fit. fitting st = Some fit \<longrightarrow> rigSubPassive fit)"

text \<open>A rig placed passive, as the module search places it, and then toggled.\<close>

definition riggedStore :: FittingStore where
  "riggedStore = addModule ''r-1'' ''t4'' Rig 0 rigData twoTurretStore"

definition toggledHighStore :: FittingStore where
  "toggledHighStore = toggleModuleState ''t5'' High 0 riggedStore"

definition toggledRigStore :: FittingStore where
  "toggledRigStore = toggleModuleState ''t5'' Rig 0 riggedStore"

text \<open>Stats snapshots of example ships with an empty fitting.\<close>

definition exampleFitting :: Fitting where
  "exampleFitting = createEmptyFitting ''fit-1'' ''t0'' 24696 ''Hurricane'' 8 5 5 3"

definition exampleStats :: ShipStats where
  "exampleStats = calculateShipStats exampleShip exampleFitting"

definition negCpuStats :: ShipStats where
  "negCpuStats =
     calculateShipStats (exampleShip\<lparr>dogma_attributes := [(ATTR_CPU, - 100)]\<rparr>) exampleFitting"

definition plainShieldStats :: ShipStats where
  "plainShieldStats =
     calculateShipStats
       (exampleShip\<lparr>dogma_attributes := [(ATTR_SHIELD_CAPACITY, 1000)]\<rparr>) exampleFitting"

definition resistShieldStats :: ShipStats where
  "resistShieldStats =
     calculateShipStats
       (exampleShip\<lparr>dogma_attributes :=
          [(ATTR_SHIELD_CAPACITY, 1000), (ATTR_SHIELD_EM_RESONANCE, 1 / 2),
           (ATTR_SHIELD_THERMAL_RESONANCE, 1 / 2), (ATTR_SHIELD_KINETIC_RESONANCE, 1 / 2),
           (ATTR_SHIELD_EXPLOSIVE_RESONANCE, 1 / 2)]\<rparr>) exampleFitting"


text \<open>A small type catalogue, requirement table and collation for the skill plan.\<close>

definition exampleReqAttrs :: "(nat \<times> nat) list" where
  "exampleReqAttrs = [(182, 277), (183, 278), (184, 279)]"

definition exampleSkill :: "nat \<Rightarrow> string \<Rightarrow> (nat \<times> real) list \<Rightarrow> EveType" where
  "exampleSkill i n attrs =
     \<lparr>et_type_id = i, et_name = n, et_group_id = 257, et_category_id = Some CATEGORY_SKILL,
      mass = None, dogma_attributes = attrs, dogma_effects = []\<rparr>"

definition exampleTypes :: "real \<Rightarrow> EveType option" where
  "exampleTypes =
     map_of
       [(3334, exampleSkill 3334 ''Minmatar Battlecruiser'' [(182, 3327), (277, 3)]),
        (3327, exampleSkill 3327 ''Spaceship Command'' []),
        (3413, exampleSkill 3413 ''Power Grid Management'' []),
        (3426, exampleSkill 3426 ''CPU Management'' [])]"

definition exampleLookups :: Lookups where
  "exampleLookups =
     \<lparr>moduleLookup = exampleTypes, prereqLookup = exampleTypes,
      nameLookup = exampleTypes, supportLookup = exampleTypes\<rparr>"

definition planShip :: EveType where
  "planShip = exampleShip\<lparr>dogma_attributes := [(182, 3334), (277, 1), (183, 3413), (278, 5)]\<rparr>"

fun exampleCompare :: "string \<Rightarrow> string \<Rightarrow> int" where
  "exampleCompare [] [] = 0"
| "exampleCompare [] (y # ys) = - 1"
| "exampleCompare (x # xs) [] = 1"
| "exampleCompare (x # xs) (y # ys) =
     (if (of_char x :: nat) < of_char y then - 1
      else if (of_char x :: nat) > of_char y then 1
      else exampleCompare xs ys)"

text \<open>The header line that \<open>parseEFT\<close> tests: the first line of the trimmed text, trimmed.\<close>

definition headerLineOf :: "string \<Rightarrow> string" where
  "headerLineOf eftText = (case splitLines (trim eftText) of [] \<Rightarrow> [] | first # rest \<Rightarrow> trim first)"

subsection \<open>Fittings that the text format can carry\<close>


















text \<open>Three texts: a fitting of one module, a text without a header, a header with a blank ship name.\<close>

definition exampleText :: string where
  "exampleText = ''[Hurricane, My Fit]'' @ newline # ''Gyrostabilizer II''"

definition headlessText :: string where
  "headlessText = ''Hurricane''"

definition blankShipText :: string where
  "blankShipText = ''[ , x]''"

section \<open>Capacitor simulator: drain above peak recharge\<close>











section \<open>Evaluating concrete lists\<close>

lemma replicate_numeral: "replicate (numeral v) x = x # replicate (numeral v - 1) x"
  by (simp add: numeral_eq_Suc)

lemma list_update_Cons_numeral: "(x # xs)[numeral v := y] = x # xs[numeral v - 1 := y]"
  by (simp add: numeral_eq_Suc)

section \<open>Offense: turret and missile classification\<close>





section \<open>Skill bonuses\<close>

lemma lvl_upd: "lvl (sk(k \<mapsto> L)) j = (if j = k then L else lvl sk j)"
  by (simp add: lvl_def)

text \<open>The skilled value of every field that \<open>applySkillBonuses\<close> overwrites from a snapshot.\<close>

lemma skilled_fields:
  "cpu_total (engineering (fst (applySkillBonuses s sk)))
     = cpu_total (engineering s) * (1 + (5 / 100) * lvl sk CPU_MANAGEMENT)"
  "pg_total (engineering (fst (applySkillBonuses s sk)))
     = pg_total (engineering s) * (1 + (5 / 100) * lvl sk POWER_GRID_MANAGEMENT)"
  "capacity (capacitor (fst (applySkillBonuses s sk)))
     = capacity (capacitor s) * (1 + (5 / 100) * lvl sk CAPACITOR_MANAGEMENT)"
  "recharge_rate (capacitor (fst (applySkillBonuses s sk)))
     = recharge_rate (capacitor s) * (1 - (5 / 100) * lvl sk CAPACITOR_SYSTEMS_OPERATION)"
  "hp (shield (fst (applySkillBonuses s sk)))
     = hp (shield s) * (1 + (5 / 100) * lvl sk SHIELD_MANAGEMENT)"
  "hp (armor (fst (applySkillBonuses s sk)))
     = hp (armor s) * (1 + (5 / 100) * lvl sk HULL_UPGRADES)"
  "hp (hull_layer (fst (applySkillBonuses s sk)))
     = hp (hull_layer s) * (1 + (5 / 100) * lvl sk MECHANICS)"
  "max_velocity (navigation (fst (applySkillBonuses s sk)))
     = max_velocity (navigation s) * (1 + (5 / 100) * lvl sk NAVIGATION)"
  "inertia_modifier (navigation (fst (applySkillBonuses s sk)))
     = inertia_modifier (navigation s) * (1 - (5 / 100) * lvl sk EVASIVE_MANEUVERING)"
  "max_targets (targeting (fst (applySkillBonuses s sk)))
     = max_targets (targeting s) + lvl sk TARGET_MANAGEMENT"
  "max_target_range (targeting (fst (applySkillBonuses s sk)))
     = max_target_range (targeting s) * (1 + (5 / 100) * lvl sk LONG_RANGE_TARGETING)"
  "scan_resolution (targeting (fst (applySkillBonuses s sk)))
     = scan_resolution (targeting s) * (1 + (5 / 100) * lvl sk SIGNATURE_ANALYSIS)"
  by (simp_all add: applySkillBonuses_def bonusLayer_def Let_def)

lemma bonus_up_mono:
  fixes x l1 l2 :: real
  assumes "0 \<le> x" "l1 \<le> l2"
  shows "x * (1 + (5 / 100) * l1) \<le> x * (1 + (5 / 100) * l2)"
  using assms by (intro mult_left_mono) simp_all

lemma bonus_down_mono:
  fixes x l1 l2 :: real
  assumes "0 \<le> x" "l1 \<le> l2"
  shows "x * (1 - (5 / 100) * l2) \<le> x * (1 - (5 / 100) * l1)"
  using assms by (intro mult_left_mono) simp_all

text \<open>
  Claim C3, as the code has it. Take a base snapshot whose bonused base values (CPU and
  power grid totals, the three layers' hit points, maximum velocity, targeting range, scan
  resolution, capacitor recharge time and inertia modifier) are not negative, and two
  skill maps that differ only in one skill, at level \<open>L1 < L2\<close>. Then \<open>applySkillBonuses\<close>
  at \<open>L2\<close> yields values greater than or equal to those at \<open>L1\<close> for cpu_total, pg_total,
  shield, armor and hull hp, max_velocity, max_targets, max_target_range and
  scan_resolution, and values less than or equal for the capacitor's recharge_rate and the
  inertia_modifier. Each map is applied to its own copy of the base snapshot.
\<close>

theorem skill_bonus_monotone:
  assumes "L1 < L2"
    and "0 \<le> cpu_total (engineering s)" and "0 \<le> pg_total (engineering s)"
    and "0 \<le> hp (shield s)" and "0 \<le> hp (armor s)" and "0 \<le> hp (hull_layer s)"
    and "0 \<le> max_velocity (navigation s)"
    and "0 \<le> max_target_range (targeting s)" and "0 \<le> scan_resolution (targeting s)"
    and "0 \<le> recharge_rate (capacitor s)" and "0 \<le> inertia_modifier (navigation s)"
  shows "(let lo = fst (applySkillBonuses s (sk(k \<mapsto> L1)));
              hi = fst (applySkillBonuses s (sk(k \<mapsto> L2)))
          in cpu_total (engineering lo) \<le> cpu_total (engineering hi) \<and>
             pg_total (engineering lo) \<le> pg_total (engineering hi) \<and>
             hp (shield lo) \<le> hp (shield hi) \<and>
             hp (armor lo) \<le> hp (armor hi) \<and>
             hp (hull_layer lo) \<le> hp (hull_layer hi) \<and>
             max_velocity (navigation lo) \<le> max_velocity (navigation hi) \<and>
             max_targets (targeting lo) \<le> max_targets (targeting hi) \<and>
             max_target_range (targeting lo) \<le> max_target_range (targeting hi) \<and>
             scan_resolution (targeting lo) \<le> scan_resolution (targeting hi) \<and>
             recharge_rate (capacitor hi) \<le> recharge_rate (capacitor lo) \<and>
             inertia_modifier (navigation hi) \<le> inertia_modifier (navigation lo))"
proof -
  have l: "lvl (sk(k \<mapsto> L1)) j \<le> lvl (sk(k \<mapsto> L2)) j" for j
    using assms(1) by (simp add: lvl_upd)
  show ?thesis
    unfolding Let_def skilled_fields
    using assms(2-) l
    by (intro conjI bonus_up_mono bonus_down_mono add_left_mono) assumption+
qed

lemma exampleStats_base:
  "cpu_total (engineering exampleStats) = 400"
  "pg_total (engineering exampleStats) = 1350"
  "hp (shield exampleStats) = 0" "hp (armor exampleStats) = 0" "hp (hull_layer exampleStats) = 0"
  "max_velocity (navigation exampleStats) = 0"
  "max_target_range (targeting exampleStats) = 50000"
  "scan_resolution (targeting exampleStats) = 300"
  "recharge_rate (capacitor exampleStats) = 0"
  "inertia_modifier (navigation exampleStats) = 1"
  by (simp_all add: exampleStats_def calculateShipStats_def calcEngineering_def calcShield_def
        calcArmor_def calcHull_def calcLayerStats_def calcNavigation_def calcTargeting_def
        calcCapacitor_def shipAttr_def exampleShip_def Let_def)

theorem skill_bonus_monotone_witness:
  "(3::real) < 5 \<and>
   cpu_total (engineering (fst (applySkillBonuses exampleStats [CPU_MANAGEMENT \<mapsto> 3]))) = 460 \<and>
   cpu_total (engineering (fst (applySkillBonuses exampleStats [CPU_MANAGEMENT \<mapsto> 5]))) = 500 \<and>
   cpu_total (engineering (fst (applySkillBonuses exampleStats [CPU_MANAGEMENT \<mapsto> 3])))
     \<le> cpu_total (engineering (fst (applySkillBonuses exampleStats [CPU_MANAGEMENT \<mapsto> 5])))"
proof -
  have lt: "(3::real) < 5" by simp
  from skill_bonus_monotone[OF lt, of exampleStats Map.empty CPU_MANAGEMENT]
  have "cpu_total (engineering (fst (applySkillBonuses exampleStats [CPU_MANAGEMENT \<mapsto> 3])))
     \<le> cpu_total (engineering (fst (applySkillBonuses exampleStats [CPU_MANAGEMENT \<mapsto> 5])))"
    by (simp add: exampleStats_base Let_def)
  moreover have
    "cpu_total (engineering (fst (applySkillBonuses exampleStats [CPU_MANAGEMENT \<mapsto> 3]))) = 460"
    "cpu_total (engineering (fst (applySkillBonuses exampleStats [CPU_MANAGEMENT \<mapsto> 5]))) = 500"
    by (simp_all add: skilled_fields exampleStats_base lvl_def)
  ultimately show ?thesis by simp
qed

lemma negCpuStats_base: "cpu_total (engineering negCpuStats) = - 100"
  by (simp add: negCpuStats_def calculateShipStats_def calcEngineering_def shipAttr_def
        exampleShip_def Let_def)

text \<open>
  The claim as stated, for every base snapshot, fails where a bonused base value is
  negative: a snapshot with a CPU total of \<open>-100\<close> has a skilled CPU total of \<open>-100\<close> at
  level 0 of CPU Management and of \<open>-125\<close> at level 5, which is less.
\<close>

theorem skill_bonus_monotone_counterexample:
  "(0::real) < 5 \<and>
   cpu_total (engineering (fst (applySkillBonuses negCpuStats [CPU_MANAGEMENT \<mapsto> 0]))) = - 100 \<and>
   cpu_total (engineering (fst (applySkillBonuses negCpuStats [CPU_MANAGEMENT \<mapsto> 5]))) = - 125"
  by (simp add: skilled_fields negCpuStats_base lvl_def)

lemma skill_deltas:
  "d_cpu_total (snd (applySkillBonuses s sk))
     = cpu_total (engineering (fst (applySkillBonuses s sk))) - cpu_total (engineering s)"
  "d_pg_total (snd (applySkillBonuses s sk))
     = pg_total (engineering (fst (applySkillBonuses s sk))) - pg_total (engineering s)"
  "d_cap_capacity (snd (applySkillBonuses s sk))
     = capacity (capacitor (fst (applySkillBonuses s sk))) - capacity (capacitor s)"
  "d_cap_recharge (snd (applySkillBonuses s sk))
     = recharge_rate (capacitor (fst (applySkillBonuses s sk))) - recharge_rate (capacitor s)"
  "d_shield_hp (snd (applySkillBonuses s sk))
     = hp (shield (fst (applySkillBonuses s sk))) - hp (shield s)"
  "d_armor_hp (snd (applySkillBonuses s sk))
     = hp (armor (fst (applySkillBonuses s sk))) - hp (armor s)"
  "d_hull_hp (snd (applySkillBonuses s sk))
     = hp (hull_layer (fst (applySkillBonuses s sk))) - hp (hull_layer s)"
  "d_max_velocity (snd (applySkillBonuses s sk))
     = max_velocity (navigation (fst (applySkillBonuses s sk))) - max_velocity (navigation s)"
  "d_inertia_modifier (snd (applySkillBonuses s sk))
     = inertia_modifier (navigation (fst (applySkillBonuses s sk)))
         - inertia_modifier (navigation s)"
  "d_align_time (snd (applySkillBonuses s sk))
     = align_time (navigation (fst (applySkillBonuses s sk)))
         - calculateAlignTime (nav_mass (navigation s)) (inertia_modifier (navigation s))"
  "d_max_targets (snd (applySkillBonuses s sk))
     = max_targets (targeting (fst (applySkillBonuses s sk))) - max_targets (targeting s)"
  "d_max_target_range (snd (applySkillBonuses s sk))
     = max_target_range (targeting (fst (applySkillBonuses s sk)))
         - max_target_range (targeting s)"
  "d_scan_resolution (snd (applySkillBonuses s sk))
     = scan_resolution (targeting (fst (applySkillBonuses s sk)))
         - scan_resolution (targeting s)"
  by (simp_all add: applySkillBonuses_def bonusLayer_def Let_def)

lemma align_time_consistent:
  "align_time (navigation (calculateShipStats ship fit))
     = calculateAlignTime (nav_mass (navigation (calculateShipStats ship fit)))
         (inertia_modifier (navigation (calculateShipStats ship fit)))"
  by (simp add: calculateShipStats_def calcNavigation_def Let_def)

text \<open>
  Claim C5, as the code has it. \<open>SkillDeltas\<close> has thirteen entries: one for each of the
  twelve skill-affected fields (among them the CPU and power grid totals) and one for
  align_time; it has no entry for EHP. Each of the twelve is the skilled value minus the
  value of the argument before any bonus was applied. The align_time entry is the skilled
  align time minus the align time recomputed from the mass and the snapshotted base
  inertia; for a snapshot made by \<open>calculateShipStats\<close> that is the snapshot's own
  align_time.
\<close>

theorem skill_deltas_from_snapshot:
  "d_cpu_total (snd (applySkillBonuses s sk))
     = cpu_total (engineering (fst (applySkillBonuses s sk))) - cpu_total (engineering s) \<and>
   d_pg_total (snd (applySkillBonuses s sk))
     = pg_total (engineering (fst (applySkillBonuses s sk))) - pg_total (engineering s) \<and>
   d_cap_capacity (snd (applySkillBonuses s sk))
     = capacity (capacitor (fst (applySkillBonuses s sk))) - capacity (capacitor s) \<and>
   d_cap_recharge (snd (applySkillBonuses s sk))
     = recharge_rate (capacitor (fst (applySkillBonuses s sk))) - recharge_rate (capacitor s) \<and>
   d_shield_hp (snd (applySkillBonuses s sk))
     = hp (shield (fst (applySkillBonuses s sk))) - hp (shield s) \<and>
   d_armor_hp (snd (applySkillBonuses s sk))
     = hp (armor (fst (applySkillBonuses s sk))) - hp (armor s) \<and>
   d_hull_hp (snd (applySkillBonuses s sk))
     = hp (hull_layer (fst (applySkillBonuses s sk))) - hp (hull_layer s) \<and>
   d_max_velocity (snd (applySkillBonuses s sk))
     = max_velocity (navigation (fst (applySkillBonuses s sk))) - max_velocity (navigation s) \<and>
   d_inertia_modifier (snd (applySkillBonuses s sk))
     = inertia_modifier (navigation (fst (applySkillBonuses s sk)))
         - inertia_modifier (navigation s) \<and>
   d_align_time (snd (applySkillBonuses s sk))
     = align_time (navigation (fst (applySkillBonuses s sk)))
         - calculateAlignTime (nav_mass (navigation s)) (inertia_modifier (navigation s)) \<and>
   d_max_targets (snd (applySkillBonuses s sk))
     = max_targets (targeting (fst (applySkillBonuses s sk))) - max_targets (targeting s) \<and>
   d_max_target_range (snd (applySkillBonuses s sk))
     = max_target_range (targeting (fst (applySkillBonuses s sk)))
         - max_target_range (targeting s) \<and>
   d_scan_resolution (snd (applySkillBonuses s sk))
     = scan_resolution (targeting (fst (applySkillBonuses s sk)))
         - scan_resolution (targeting s) \<and>
   d_align_time (snd (applySkillBonuses (calculateShipStats ship fit) sk))
     = align_time (navigation (fst (applySkillBonuses (calculateShipStats ship fit) sk)))
         - align_time (navigation (calculateShipStats ship fit))"
  unfolding skill_deltas align_time_consistent[symmetric] by simp

text \<open>
  The claim as stated fails on the EHP delta, which the returned record does not hold:
  two snapshots with 1000 shield hit points, one without and one with 50% shield
  resistances, get the same \<open>SkillDeltas\<close> from Shield Management V, while their total EHP
  rises by 250 (from 1000 to 1250) and by 500 (from 2000 to 2500).
\<close>

theorem skill_deltas_counterexample:
  "snd (applySkillBonuses plainShieldStats [SHIELD_MANAGEMENT \<mapsto> 5])
     = snd (applySkillBonuses resistShieldStats [SHIELD_MANAGEMENT \<mapsto> 5]) \<and>
   total_ehp plainShieldStats = 1000 \<and>
   total_ehp (fst (applySkillBonuses plainShieldStats [SHIELD_MANAGEMENT \<mapsto> 5])) = 1250 \<and>
   total_ehp resistShieldStats = 2000 \<and>
   total_ehp (fst (applySkillBonuses resistShieldStats [SHIELD_MANAGEMENT \<mapsto> 5])) = 2500"
  by (simp add: applySkillBonuses_def bonusLayer_def Let_def lvl_def
        plainShieldStats_def resistShieldStats_def calculateShipStats_def
        calcShield_def calcArmor_def calcHull_def calcLayerStats_def calcResistProfile_def
        calcEngineering_def calcCapacitor_def calcNavigation_def calcTargeting_def
        calculateEHP_def avgResonance_def shipAttr_def exampleShip_def)

section \<open>Fitting store: hardpoints, bounds and passive rigs\<close>


lemma state_placed [simp]: "state (placed md i st k) = state md"
  by (simp add: placed_def ModuleData.defs)

lemma effects_placed [simp]: "effects (placed md i st k) = effects md"
  by (simp add: placed_def ModuleData.defs)

lemma list_all_update:
  "list_all P xs \<Longrightarrow> P v \<Longrightarrow> list_all P (xs[i := v])"
  by (induction xs arbitrary: i) (auto split: nat.splits)

lemma passive_fillLoop:
  "state md = Passive \<Longrightarrow> list_all passiveSlot xs \<Longrightarrow>
   list_all passiveSlot (fst (fillLoop md g sty isHp used limit i filled xs))"
  by (induction md g sty isHp used limit i filled xs rule: fillLoop.induct)
     (auto simp: passiveSlot_def split: prod.splits)

lemma slotAt_Some:
  assumes "slotAt xs i = Some m"
  shows "Some m \<in> set xs" and "0 \<le> i" and "nat i < length xs"
proof -
  from assms have b: "0 \<le> i" "nat i < length xs" and e: "xs ! nat i = Some m"
    by (auto simp: slotAt_def split: if_splits)
  from b show "0 \<le> i" "nat i < length xs" by simp_all
  from b(2) e show "Some m \<in> set xs" by (metis nth_mem)
qed

lemma rigSub_setSlotsAt:
  "rigSubPassive fit \<Longrightarrow>
   (key = Key_rig_slots \<or> key = Key_subsystem_slots \<longrightarrow> list_all passiveSlot xs) \<Longrightarrow>
   rigSubPassive ((setSlotsAt key xs fit)\<lparr>updated_at := now\<rparr>)"
  by (cases key) (auto simp: rigSubPassive_def)

lemma rigSub_slotsAt:
  "rigSubPassive fit \<Longrightarrow> key = Key_rig_slots \<or> key = Key_subsystem_slots \<Longrightarrow>
   list_all passiveSlot (slotsAt key fit)"
  by (auto simp: rigSubPassive_def)

lemma key_rig_sub:
  "getSlotArrayKey slotType = Some key \<Longrightarrow>
   (key = Key_rig_slots \<or> key = Key_subsystem_slots) = (slotType = Rig \<or> slotType = Subsystem)"
  by (cases slotType) auto


lemma inv_addModule:
  assumes "storeInv st" "slotType = Rig \<or> slotType = Subsystem \<longrightarrow> state md = Passive"
  shows "storeInv (addModule newId now slotType index md st)"
proof -
  { fix fit ship key
    assume f: "fitting st = Some fit" and k: "getSlotArrayKey slotType = Some key"
    have "rigSubPassive
            ((setSlotsAt key ((slotsAt key fit)[nat index := Some (placed md newId slotType index)]) fit)
               \<lparr>updated_at := now\<rparr>)"
      using assms f key_rig_sub[OF k]
      by (intro rigSub_setSlotsAt impI list_all_update rigSub_slotsAt)
         (auto simp: storeInv_def passiveSlot_def) }
  then show ?thesis
    using assms(1)
    by (auto simp: storeInv_def addModule_def cloneFitting_def Let_def
             split: option.splits prod.splits if_splits)
qed



lemma fillSlots_fitting:
  assumes "fitting st = Some fit" "shipType st = Some ship" "stats st = Some s0"
    and "getSlotArrayKey slotType = Some key"
  shows "fitting (fillSlots genId now slotType md st) =
           (if snd (fillResult md genId slotType s0 (slotsAt key fit)) = 0 then Some fit
            else Some ((setSlotsAt key (fst (fillResult md genId slotType s0 (slotsAt key fit))) fit)
                         \<lparr>updated_at := now\<rparr>))"
  using assms
  by (simp add: fillSlots_def fillResult_def cloneFitting_def Let_def split: prod.splits)

lemma inv_fillSlots:
  assumes "storeInv st" "slotType = Rig \<or> slotType = Subsystem \<longrightarrow> state md = Passive"
  shows "storeInv (fillSlots genId now slotType md st)"
proof (cases "\<exists>fit ship s0 key. fitting st = Some fit \<and> shipType st = Some ship \<and>
                 stats st = Some s0 \<and> getSlotArrayKey slotType = Some key")
  case False
  then have "fillSlots genId now slotType md st = st"
    by (auto simp: fillSlots_def split: option.splits)
  with assms(1) show ?thesis by simp
next
  case True
  then obtain fit ship s0 key where
    f: "fitting st = Some fit" "shipType st = Some ship" "stats st = Some s0"
       "getSlotArrayKey slotType = Some key"
    by blast
  have base: "rigSubPassive fit" using assms(1) f(1) by (simp add: storeInv_def)
  have step: "rigSubPassive
            ((setSlotsAt key (fst (fillLoop md genId slotType isHp used limit 0 0 (slotsAt key fit))) fit)
               \<lparr>updated_at := now\<rparr>)" for isHp used limit
    using assms(2) base key_rig_sub[OF f(4)]
    by (intro rigSub_setSlotsAt impI passive_fillLoop rigSub_slotsAt) auto
  show ?thesis
    unfolding storeInv_def fillSlots_fitting[OF f]
    using base step by (auto simp: fillResult_def Let_def split: if_splits)
qed

lemma inv_removeModule:
  assumes "storeInv st"
  shows "storeInv (removeModule now slotType index st)"
proof -
  { fix fit key
    assume f: "fitting st = Some fit"
    have "rigSubPassive
            ((setSlotsAt key ((slotsAt key fit)[nat index := None]) fit)\<lparr>updated_at := now\<rparr>)"
      using assms f
      by (intro rigSub_setSlotsAt impI list_all_update rigSub_slotsAt)
         (auto simp: storeInv_def passiveSlot_def) }
  then show ?thesis
    using assms(1)
    by (auto simp: storeInv_def removeModule_def cloneFitting_def Let_def
             split: option.splits prod.splits if_splits)
qed

lemma inv_toggleModuleState:
  assumes "storeInv st" "slotType \<noteq> Rig" "slotType \<noteq> Subsystem"
  shows "storeInv (toggleModuleState now slotType index st)"
proof -
  { fix fit key xs
    assume f: "fitting st = Some fit" and k: "getSlotArrayKey slotType = Some key"
    have "rigSubPassive ((setSlotsAt key xs fit)\<lparr>updated_at := now\<rparr>)"
      using assms f key_rig_sub[OF k]
      by (intro rigSub_setSlotsAt) (auto simp: storeInv_def) }
  then show ?thesis
    using assms(1)
    by (auto simp: storeInv_def toggleModuleState_def cloneFitting_def Let_def
             split: option.splits prod.splits if_splits)
qed

lemma inv_setModuleCharge:
  assumes "storeInv st"
  shows "storeInv (setModuleCharge now slotType index charge0 st)"
proof -
  { fix fit key m
    assume f: "fitting st = Some fit" and s: "slotAt (slotsAt key fit) index = Some m"
    have "rigSubPassive
            ((setSlotsAt key ((slotsAt key fit)[nat index := Some (m\<lparr>charge := charge0\<rparr>)]) fit)
               \<lparr>updated_at := now\<rparr>)"
    proof (intro rigSub_setSlotsAt impI list_all_update rigSub_slotsAt)
      show "rigSubPassive fit" using assms f by (simp add: storeInv_def)
    next
      assume kk: "key = Key_rig_slots \<or> key = Key_subsystem_slots"
      then show "key = Key_rig_slots \<or> key = Key_subsystem_slots" .
      have "rigSubPassive fit" using assms f by (simp add: storeInv_def)
      then have "list_all passiveSlot (slotsAt key fit)" using kk by (rule rigSub_slotsAt)
      with slotAt_Some(1)[OF s] have "passiveSlot (Some m)" by (simp add: list_all_iff)
      then show "passiveSlot (Some (m\<lparr>charge := charge0\<rparr>))" by (simp add: passiveSlot_def)
    next
      show "rigSubPassive fit" using assms f by (simp add: storeInv_def)
    qed }
  then show ?thesis
    using assms(1)
    by (auto simp: storeInv_def setModuleCharge_def cloneFitting_def Let_def
             split: option.splits prod.splits if_splits)
qed

lemma inv_addDrone:
  assumes "storeInv st"
  shows "storeInv (addDrone newId now droneData st)"
  using assms
  by (auto simp: storeInv_def addDrone_def cloneFitting_def Let_def rigSubPassive_def
           split: option.splits prod.splits)

lemma inv_removeDrone:
  assumes "storeInv st"
  shows "storeInv (removeDrone now index st)"
  using assms
  by (auto simp: storeInv_def removeDrone_def cloneFitting_def Let_def rigSubPassive_def
           split: option.splits prod.splits)

lemma inv_importFitting:
  assumes "rigSubPassive fit"
  shows "storeInv (importFitting fit ship st)"
  using assms
  by (auto simp: storeInv_def importFitting_def Let_def split: prod.splits)

lemma inv_start:
  assumes "fitting st = Some fit" "emptyFitting fit"
  shows "storeInv st"
  using assms
  by (auto simp: storeInv_def emptyFitting_def rigSubPassive_def passiveSlot_def list_all_iff
           split: option.splits)

lemma emptySlots_simps [simp]:
  "emptySlots [] = 0"
  "emptySlots (None # xs) = Suc (emptySlots xs)"
  "emptySlots (Some m # xs) = emptySlots xs"
  by (simp_all add: emptySlots_def)

lemma flaggedModules_simps [simp]:
  "flaggedModules e [] = 0"
  "flaggedModules e (None # xs) = flaggedModules e xs"
  "flaggedModules e (Some m # xs) = (if e \<in> set (effects m) then Suc (flaggedModules e xs) else flaggedModules e xs)"
  by (simp_all add: flaggedModules_def)










lemma slotsAt_setSlotsAt [simp]:
  "slotsAt key ((setSlotsAt key xs fit)\<lparr>updated_at := now\<rparr>) = xs"
  by (cases key) simp_all




lemma fitting_exampleStore:
  "fitting exampleStore = Some (createEmptyFitting ''fit-1'' ''t0'' 24696 ''Hurricane'' 8 5 5 3)"
  by (simp add: exampleStore_def setShip_def initialStore_def
        countOr_def exampleShip_def Let_def split: prod.splits)

lemma shipType_exampleStore: "shipType exampleStore = Some exampleShip"
  by (simp add: exampleStore_def setShip_def initialStore_def Let_def split: prod.splits)






subsection \<open>Out-of-bounds placement and removal\<close>

text \<open>
  Claim C10. When \<open>addModule\<close> or \<open>removeModule\<close> is called with a slot type that has no
  slot array (\<open>drone\<close>, \<open>cargo\<close>), or with an index below 0 or at or beyond the length of
  the category's slot array, the store state that results is the state it was called in:
  fitting, stats, skill deltas and every other field. The early return is taken before
  the stats are computed and before \<open>set\<close>; the source has no \<open>throw\<close> on these paths,
  and the model has no error value.
\<close>

theorem out_of_bounds_noop:
  assumes "getSlotArrayKey slotType = None \<or>
           (\<exists>fit key. fitting st = Some fit \<and> getSlotArrayKey slotType = Some key \<and>
              (index < 0 \<or> index \<ge> int (length (slotsAt key fit))))"
  shows "addModule newId now slotType index moduleData st = st \<and>
         removeModule now slotType index st = st"
  using assms
  by (auto simp: addModule_def removeModule_def cloneFitting_def Let_def
           split: option.splits prod.splits)

lemma exampleStore_high: "length (high_slots (createEmptyFitting ''fit-1'' ''t0'' 24696 ''Hurricane'' 8 5 5 3)) = 8"
  by (simp add: createEmptyFitting_def createEmptySlots_def)

theorem out_of_bounds_noop_witness:
  "(addModule ''x'' ''t9'' High 8 turretData exampleStore = exampleStore \<and>
    removeModule ''t9'' High 8 exampleStore = exampleStore) \<and>
   (addModule ''x'' ''t9'' High (- 1) turretData exampleStore = exampleStore \<and>
    removeModule ''t9'' High (- 1) exampleStore = exampleStore) \<and>
   (addModule ''x'' ''t9'' Drone 0 turretData exampleStore = exampleStore \<and>
    removeModule ''t9'' Drone 0 exampleStore = exampleStore)"
proof -
  have a: "getSlotArrayKey High = None \<or>
           (\<exists>fit key. fitting exampleStore = Some fit \<and> getSlotArrayKey High = Some key \<and>
              ((8::int) < 0 \<or> 8 \<ge> int (length (slotsAt key fit))))"
    by (simp add: fitting_exampleStore exampleStore_high)
  have b: "getSlotArrayKey High = None \<or>
           (\<exists>fit key. fitting exampleStore = Some fit \<and> getSlotArrayKey High = Some key \<and>
              ((- 1::int) < 0 \<or> - 1 \<ge> int (length (slotsAt key fit))))"
    by (simp add: fitting_exampleStore)
  have c: "getSlotArrayKey Drone = None \<or>
           (\<exists>fit key. fitting exampleStore = Some fit \<and> getSlotArrayKey Drone = Some key \<and>
              ((0::int) < 0 \<or> 0 \<ge> int (length (slotsAt key fit))))"
    by simp
  from out_of_bounds_noop[OF a] out_of_bounds_noop[OF b] out_of_bounds_noop[OF c] show ?thesis by blast
qed

subsection \<open>Rig and subsystem modules stay passive\<close>

text \<open>
  Claim C9, as the code has it. The store's operations do not themselves keep rig and
  subsystem modules passive; the components that call them do. In every store reachable
  from an empty fitting by \<open>addModule\<close> and \<open>fillSlots\<close> with a passive module whenever the
  slot type is rig or subsystem, \<open>toggleModuleState\<close> on slot types other than rig and
  subsystem, \<open>importFitting\<close> of fittings whose rig and subsystem modules are passive, and
  \<open>removeModule\<close>, \<open>setModuleCharge\<close>, \<open>addDrone\<close> and \<open>removeDrone\<close> without restriction,
  every module held in a rig or subsystem slot is passive.
\<close>

theorem rig_subsystem_passive:
  assumes "guardedReachable st" and "fitting st = Some fit"
  shows "rigSubPassive fit"
proof -
  from assms(1) have "storeInv st"
  proof (induction rule: guardedReachable.induct)
    case (start st fit) then show ?case by (rule inv_start)
  next
    case (add st slotType moduleData newId now index) then show ?case by (intro inv_addModule)
  next
    case (fill st slotType moduleData genId now) then show ?case by (intro inv_fillSlots)
  next
    case (remove st now slotType index) then show ?case by (intro inv_removeModule)
  next
    case (toggle st slotType now index) then show ?case by (intro inv_toggleModuleState)
  next
    case (setCharge st now slotType index charge0) then show ?case by (intro inv_setModuleCharge)
  next
    case (addDrone st newId now droneData) then show ?case by (intro inv_addDrone)
  next
    case (removeDrone st now index) then show ?case by (intro inv_removeDrone)
  next
    case (importFit st fit ship) then show ?case by (intro inv_importFitting)
  qed
  with assms(2) show ?thesis by (simp add: storeInv_def)
qed

lemma riggedStore_facts:
  "shipType riggedStore = Some exampleShip"
  "\<exists>f. fitting riggedStore = Some f \<and>
       rig_slots f = [Some (placed rigData ''r-1'' Rig 0), None, None] \<and>
       high_slots f = [Some (placed turretData ''m-1'' High 0), Some (placed turretData ''m-2'' High 1),
                       None, None, None, None, None, None]"
  by (simp_all add: riggedStore_def twoTurretStore_def addModule_def fitting_exampleStore shipType_exampleStore
       cloneFitting_def createEmptyFitting_def createEmptySlots_def Let_def replicate_numeral
       list_update_Cons_numeral case_prod_beta)

lemma nextState_simps [simp]:
  "nextState Active = Passive" "nextState Passive = Offline" "nextState Offline = Active"
  by (simp_all add: nextState_def cycleStates_def Let_def)

lemma reach_toggledHigh: "guardedReachable toggledHighStore"
proof -
  have "emptyFitting (createEmptyFitting ''fit-1'' ''t0'' 24696 ''Hurricane'' 8 5 5 3)"
    by (simp add: emptyFitting_def createEmptyFitting_def createEmptySlots_def list_all_iff)
  with fitting_exampleStore have "guardedReachable exampleStore"
    by (rule guardedReachable.start)
  then have "guardedReachable twoTurretStore"
    unfolding twoTurretStore_def by (intro guardedReachable.add) simp_all
  then have "guardedReachable riggedStore"
    unfolding riggedStore_def by (intro guardedReachable.add) (simp_all add: rigData_def)
  then show ?thesis
    unfolding toggledHighStore_def by (intro guardedReachable.toggle) simp_all
qed

lemma toggledHigh_facts:
  "\<exists>f. fitting toggledHighStore = Some f \<and>
       rig_slots f = [Some (placed rigData ''r-1'' Rig 0), None, None] \<and>
       map_option state (high_slots f ! 0) = Some Passive"
proof -
  from riggedStore_facts obtain f where
    f: "fitting riggedStore = Some f" "rig_slots f = [Some (placed rigData ''r-1'' Rig 0), None, None]"
       "high_slots f = [Some (placed turretData ''m-1'' High 0), Some (placed turretData ''m-2'' High 1),
                       None, None, None, None, None, None]"
    by blast
  show ?thesis
    by (simp add: toggledHighStore_def toggleModuleState_def f riggedStore_facts(1) cloneFitting_def
          slotAt_def Let_def case_prod_beta turretData_def)
qed

theorem rig_subsystem_passive_witness:
  "guardedReachable toggledHighStore \<and>
   (\<exists>fit. fitting toggledHighStore = Some fit \<and> rigSubPassive fit \<and>
      rig_slots fit ! 0 \<noteq> None \<and> map_option state (high_slots fit ! 0) = Some Passive)"
proof -
  from toggledHigh_facts obtain f where
    f: "fitting toggledHighStore = Some f"
       "rig_slots f = [Some (placed rigData ''r-1'' Rig 0), None, None]"
       "map_option state (high_slots f ! 0) = Some Passive"
    by blast
  from rig_subsystem_passive[OF reach_toggledHigh f(1)] have "rigSubPassive f" .
  with f reach_toggledHigh show ?thesis by simp
qed

lemma toggledRigStore_state:
  "map_option state (rigSlotsOf riggedStore ! 0) = Some Passive \<and>
   map_option state (rigSlotsOf toggledRigStore ! 0) = Some Offline"
proof -
  from riggedStore_facts obtain f where
    f: "fitting riggedStore = Some f" "rig_slots f = [Some (placed rigData ''r-1'' Rig 0), None, None]"
    by blast
  have "rigSlotsOf toggledRigStore = [Some ((placed rigData ''r-1'' Rig 0)\<lparr>state := Offline\<rparr>), None, None]"
    by (simp add: toggledRigStore_def toggleModuleState_def f riggedStore_facts(1) cloneFitting_def
          slotAt_def Let_def case_prod_beta rigSlotsOf_def rigData_def)
  then show ?thesis by (simp add: rigSlotsOf_def f rigData_def)
qed

text \<open>
  The claim as stated fails: from the empty fitting of the example ship, two turrets and
  a passive rig are placed with \<open>addModule\<close>; \<open>toggleModuleState\<close> on rig slot 0 then
  leaves the rig in state \<open>offline\<close>.
\<close>

theorem rig_subsystem_passive_counterexample:
  "map_option state (rigSlotsOf riggedStore ! 0) = Some Passive \<and>
   map_option state (rigSlotsOf toggledRigStore ! 0) = Some Offline"
  by (rule toggledRigStore_state)

section \<open>Skill plan: stage ordering\<close>


lemma set_insertSorted [simp]: "set (insertSorted cmp x ys) = insert x (set ys)"
  by (induction ys) auto

lemma set_sortByName_acc: "set (foldl (\<lambda>acc x. insertSorted cmp x acc) a xs) = set a \<union> set xs"
  by (induction xs arbitrary: a) auto

lemma set_sortByName [simp]: "set (sortByName cmp xs) = set xs"
  by (simp add: sortByName_def set_sortByName_acc)

lemma in_namedSkills:
  "s \<in> set (namedSkills names levels) \<longleftrightarrow>
     (\<exists>i l n. (i, l) \<in> set levels \<and> map_of names i = Some n \<and> n \<noteq> [] \<and>
        s = \<lparr>skill_type_id = i, skill_name = n, required_level = l\<rparr>)"
  unfolding namedSkills_def
  by (induction levels) (auto simp: map_filter_simps split: option.splits if_splits)

lemma map_of_resolveNames:
  "map_of (resolveNames g ids names) k =
     (if k \<in> set ids \<and> g k \<noteq> None then Some (et_name (the (g k))) else map_of names k)"
  unfolding resolveNames_def
  by (induction ids arbitrary: names rule: rev_induct) (auto simp: update_conv' split: option.splits)

lemma keepMax_distinct: "distinct (map fst reqs) \<Longrightarrow> distinct (map fst (keepMax reqs req))"
  by (auto simp: keepMax_def distinct_update split: option.splits)

lemma stage2Map0_props:
  "distinct (map fst (foldl (\<lambda>m (skillId, level). AList.update skillId (max level 4) m) m0 reqs))"
  if "distinct (map fst m0)"
  using that by (induction reqs arbitrary: m0) (auto simp: distinct_update split: prod.splits)

lemma map_of_stage2Map0:
  "distinct (map fst reqs) \<Longrightarrow>
   map_of (foldl (\<lambda>m (skillId, level). AList.update skillId (max level 4) m) m0 reqs) k =
     (case map_of reqs k of None \<Rightarrow> map_of m0 k | Some l \<Rightarrow> Some (max l 4))"
proof (induction reqs arbitrary: m0)
  case Nil then show ?case by simp
next
  case (Cons a reqs)
  obtain i l where a: "a = (i, l)" by (cases a)
  from Cons.prems have ni: "map_of reqs i = None" and d: "distinct (map fst reqs)"
    by (auto simp: a map_of_eq_None_iff)
  show ?case
    using ni by (auto simp: a Cons.IH[OF d] update_conv' split: option.splits)
qed

lemma supportFloor_distinct:
  "distinct (map fst m) \<Longrightarrow> distinct (map fst (foldl supportFloor m ids))"
  by (induction ids arbitrary: m) (auto simp: supportFloor_def distinct_update split: option.splits)

lemma map_of_supportFloor_keep:
  "map_of m k = Some v \<Longrightarrow> 4 \<le> v \<Longrightarrow> map_of (foldl supportFloor m ids) k = Some v"
proof (induction ids arbitrary: m)
  case Nil then show ?case by simp
next
  case (Cons i ids)
  have "map_of (supportFloor m i) k = Some v"
    using Cons.prems by (auto simp: supportFloor_def update_conv' split: option.splits)
  from Cons.IH[OF this Cons.prems(2)] show ?case by simp
qed

lemma supportFloor_ge4:
  "(\<forall>k v. map_of m k = Some v \<longrightarrow> 4 \<le> v) \<Longrightarrow>
   map_of (foldl supportFloor m ids) k = Some v \<Longrightarrow> 4 \<le> v"
proof (induction ids arbitrary: m)
  case Nil then show ?case by simp
next
  case (Cons i ids)
  have "\<forall>k v. map_of (supportFloor m i) k = Some v \<longrightarrow> 4 \<le> v"
    using Cons.prems(1) by (auto simp: supportFloor_def update_conv' split: option.splits if_splits)
  from Cons.IH[OF this] Cons.prems(2) show ?case by simp
qed


lemma keepMax_fold_distinct:
  "distinct (map fst reqs) \<Longrightarrow> distinct (map fst (foldl keepMax reqs xs))"
  by (induction xs arbitrary: reqs) (auto simp: keepMax_distinct)

lemma resolveLoop_distinct:
  "resolveLoop fuel g attrs prereqs visited result = Some (visited', result') \<Longrightarrow>
   distinct (map fst result) \<Longrightarrow> distinct (map fst result')"
proof (induction fuel g attrs prereqs visited result arbitrary: visited' result'
         rule: resolveLoop.induct)
  case (1 g attrs prereqs visited result)
  then show ?case by simp
next
  case (2 fuel g attrs visited result)
  then show ?case by simp
next
  case (3 fuel g attrs prereq rest visited result)
  have d1: "distinct (map fst (keepMax result prereq))"
    using "3.prems"(2) by (rule keepMax_distinct)
  show ?case
  proof (cases "fst prereq \<in> set visited")
    case True
    with "3.prems"(1) have "resolveLoop fuel g attrs rest visited (keepMax result prereq)
        = Some (visited', result')" by (simp add: Let_def)
    from "3.IH"(1)[OF refl True this d1] show ?thesis .
  next
    case False
    show ?thesis
    proof (cases "g (fst prereq)")
      case None
      with False "3.prems"(1) have "resolveLoop fuel g attrs rest (visited @ [fst prereq])
          (keepMax result prereq) = Some (visited', result')" by (simp add: Let_def)
      from "3.IH"(2)[OF refl False refl None this d1] show ?thesis .
    next
      case (Some t)
      show ?thesis
      proof (cases "notASkill t")
        case True
        with False Some "3.prems"(1) have "resolveLoop fuel g attrs rest (visited @ [fst prereq])
            (keepMax result prereq) = Some (visited', result')" by (simp add: Let_def)
        from "3.IH"(3)[OF refl False refl Some True this d1] show ?thesis .
      next
        case nt: False
        with False Some "3.prems"(1) obtain v2 r2 where
          inner: "resolveLoop fuel g attrs (extractSkillReqs attrs t) (visited @ [fst prereq])
                    (keepMax result prereq) = Some (v2, r2)"
          and outer: "resolveLoop fuel g attrs rest v2 r2 = Some (visited', result')"
          by (auto simp: Let_def split: option.splits)
        from "3.IH"(4)[OF refl False refl Some nt inner d1] have d2: "distinct (map fst r2)" .
        from "3.IH"(5)[OF refl False refl Some nt inner refl outer d2] show ?thesis .
      qed
    qed
  qed
qed

lemma resolveRoots_distinct:
  "resolveRoots fuel g attrs ids visited result = Some (visited', result') \<Longrightarrow>
   distinct (map fst result) \<Longrightarrow> distinct (map fst result')"
proof (induction ids arbitrary: visited result)
  case Nil then show ?case by simp
next
  case (Cons i ids)
  from Cons.prems(1) obtain v1 r1 where
    a: "resolveRoot fuel g attrs i visited result = Some (v1, r1)"
    and b: "resolveRoots fuel g attrs ids v1 r1 = Some (visited', result')"
    by (auto split: option.splits)
  have "distinct (map fst r1)"
    using a Cons.prems(2) resolveLoop_distinct
    by (auto simp: resolveRoot_def split: option.splits if_splits)
  from Cons.IH[OF b this] show ?case .
qed

lemma planStages_ordering:
  assumes d: "distinct (map fst allReqs)"
  shows "\<exists>minimum recommended mastery.
     stages (planStages lk cmp allReqs) = [minimum, recommended, mastery] \<and>
     stage_name minimum = ''Minimum'' \<and> stage_name recommended = ''Recommended'' \<and>
     stage_name mastery = ''Mastery'' \<and>
     skill_type_id ` set (skills minimum) \<subseteq> skill_type_id ` set (skills recommended) \<and>
     skill_type_id ` set (skills recommended) \<subseteq> skill_type_id ` set (skills mastery) \<and>
     (\<forall>s\<in>set (skills mastery). required_level s = 5) \<and>
     (\<forall>s\<in>set (skills recommended). 4 \<le> required_level s) \<and>
     (\<forall>s\<in>set (skills recommended). \<forall>m\<in>set (skills minimum).
         skill_type_id m = skill_type_id s \<longrightarrow> required_level m \<le> required_level s)"
proof -
  define supportIds where "supportIds = map real SUPPORT_SKILL_IDS"
  define names1 where "names1 = resolveNames (nameLookup lk) (map fst allReqs) []"
  define m0 where "m0 = foldl (\<lambda>m (skillId, level). AList.update skillId (max level 4) m) [] allReqs"
  define m2 where "m2 = foldl supportFloor m0 supportIds"
  define names2 where "names2 = resolveNames (supportLookup lk)
                          (filter (\<lambda>i. map_of names1 i = None) supportIds) names1"
  define st1 where "st1 = sortByName cmp (namedSkills names1 allReqs)"
  define st2 where "st2 = sortByName cmp (namedSkills names2 m2)"
  define st3 where "st3 = map (\<lambda>s. s\<lparr>required_level := 5\<rparr>) st2"
  have plan: "stages (planStages lk cmp allReqs) =
      [\<lparr>stage_name = ''Minimum'', skills = st1, total = length st1\<rparr>,
       \<lparr>stage_name = ''Recommended'', skills = st2, total = length st2\<rparr>,
       \<lparr>stage_name = ''Mastery'', skills = st3, total = length st3\<rparr>]"
    by (simp add: planStages_def Let_def st1_def st2_def st3_def names1_def names2_def
          m0_def m2_def supportIds_def)
  have m0: "map_of m0 k = map_option (\<lambda>l. max l 4) (map_of allReqs k)" for k
    unfolding m0_def by (simp add: map_of_stage2Map0[OF d] split: option.splits)
  have dm2: "distinct (map fst m2)"
    unfolding m2_def m0_def by (intro supportFloor_distinct stage2Map0_props) simp
  have m2_keep: "map_of m2 k = Some (max l 4)" if "map_of allReqs k = Some l" for k l
    unfolding m2_def by (rule map_of_supportFloor_keep) (simp_all add: m0 that)
  have m2_ge: "4 \<le> v" if "map_of m2 k = Some v" for k v
    using that unfolding m2_def
    by (rule supportFloor_ge4[rotated]) (auto simp: m0)
  have names_keep: "map_of names2 k = Some n" if "map_of names1 k = Some n" for k n
    unfolding names2_def using that by (simp add: map_of_resolveNames)
  have sub12: "skill_type_id ` set st1 \<subseteq> skill_type_id ` set st2"
  proof
    fix i assume "i \<in> skill_type_id ` set st1"
    then obtain l n where a: "(i, l) \<in> set allReqs" "map_of names1 i = Some n" "n \<noteq> []"
      by (auto simp: st1_def in_namedSkills)
    from a(1) d have "map_of allReqs i = Some l" by simp
    then have "(i, max l 4) \<in> set m2" using m2_keep dm2 by simp
    with names_keep[OF a(2)] a(3)
    have "\<lparr>skill_type_id = i, skill_name = n, required_level = max l 4\<rparr> \<in> set st2"
      by (auto simp: st2_def in_namedSkills)
    then show "i \<in> skill_type_id ` set st2" by force
  qed
  have "map skill_type_id st3 = map skill_type_id st2" by (simp add: st3_def)
  then have "skill_type_id ` set st3 = skill_type_id ` set st2"
    by (metis set_map)
  then have sub23: "skill_type_id ` set st2 \<subseteq> skill_type_id ` set st3" by simp
  have l3: "\<forall>s\<in>set st3. required_level s = 5" by (auto simp: st3_def)
  have l2: "\<forall>s\<in>set st2. 4 \<le> required_level s"
  proof
    fix s assume "s \<in> set st2"
    then obtain i l where "(i, l) \<in> set m2" "required_level s = l"
      by (auto simp: st2_def in_namedSkills)
    with dm2 m2_ge[of i l] show "4 \<le> required_level s" by simp
  qed
  have l12: "\<forall>s\<in>set st2. \<forall>m\<in>set st1.
               skill_type_id m = skill_type_id s \<longrightarrow> required_level m \<le> required_level s"
  proof (intro ballI impI)
    fix s m assume s: "s \<in> set st2" and m: "m \<in> set st1"
      and e: "skill_type_id m = skill_type_id s"
    from m obtain i l where a: "(i, l) \<in> set allReqs" "skill_type_id m = i" "required_level m = l"
      by (auto simp: st1_def in_namedSkills)
    from s obtain j v where b: "(j, v) \<in> set m2" "skill_type_id s = j" "required_level s = v"
      by (auto simp: st2_def in_namedSkills)
    from a(1) d have "map_of allReqs i = Some l" by simp
    then have "map_of m2 i = Some (max l 4)" by (rule m2_keep)
    moreover from b(1) dm2 have "map_of m2 j = Some v" by simp
    ultimately have "v = max l 4" using e a(2) b(2) by simp
    then show "required_level m \<le> required_level s" using a(3) b(3) by simp
  qed
  show ?thesis
    unfolding plan using sub12 sub23 l3 l2 l12 by simp
qed





lemma resolveLoop_numeral:
  "resolveLoop (numeral k) g attrs [] visited result = Some (visited, result)"
  "resolveLoop (numeral k) g attrs (prereq # rest) visited result =
     (let result1 = keepMax result prereq
      in if fst prereq \<in> set visited
         then resolveLoop (pred_numeral k) g attrs rest visited result1
         else
           (let visited1 = visited @ [fst prereq]
            in case g (fst prereq) of
                 None \<Rightarrow> resolveLoop (pred_numeral k) g attrs rest visited1 result1
               | Some t \<Rightarrow>
                   if notASkill t
                   then resolveLoop (pred_numeral k) g attrs rest visited1 result1
                   else
                     (case resolveLoop (pred_numeral k) g attrs
                             (extractSkillReqs attrs t) visited1 result1 of
                        None \<Rightarrow> None
                      | Some (visited2, result2) \<Rightarrow>
                          resolveLoop (pred_numeral k) g attrs rest visited2 result2)))"
  by (simp_all add: numeral_eq_Suc)

lemma planShip_reqs: "extractSkillReqs exampleReqAttrs planShip = [(3334, 1), (3413, 5)]"
  by (simp add: extractSkillReqs_def exampleReqAttrs_def planShip_def exampleShip_def
        map_filter_simps Let_def)

lemma exampleTypes_simps:
  "exampleTypes 3334 = Some (exampleSkill 3334 ''Minmatar Battlecruiser'' [(182, 3327), (277, 3)])"
  "exampleTypes 3327 = Some (exampleSkill 3327 ''Spaceship Command'' [])"
  "exampleTypes 3413 = Some (exampleSkill 3413 ''Power Grid Management'' [])"
  "exampleTypes 3426 = Some (exampleSkill 3426 ''CPU Management'' [])"
  "exampleTypes 3418 = None" "exampleTypes 3417 = None" "exampleTypes 3419 = None"
  "exampleTypes 3394 = None" "exampleTypes 3392 = None" "exampleTypes 3449 = None"
  "exampleTypes 3453 = None" "exampleTypes 3428 = None" "exampleTypes 3431 = None"
  "exampleTypes 3432 = None"
  by (simp_all add: exampleTypes_def)

lemma exampleSkill_reqs:
  "extractSkillReqs exampleReqAttrs (exampleSkill 3334 ''Minmatar Battlecruiser'' [(182, 3327), (277, 3)]) = [(3327, 3)]"
  "extractSkillReqs exampleReqAttrs (exampleSkill i n []) = []"
  "notASkill (exampleSkill i n a) = False"
  by (simp_all add: extractSkillReqs_def exampleReqAttrs_def exampleSkill_def notASkill_def
        map_filter_simps Let_def)

lemma example_allReqs:
  "resolveRoots 4 exampleTypes exampleReqAttrs [3334, 3413] [3334, 3413] [(3334, 1), (3413, 5)]
     = Some ([3334, 3413, 3327], [(3334, 1), (3413, 5), (3327, 3)])"
  by (simp add: resolveRoot_def resolveLoop_numeral exampleTypes_simps exampleSkill_reqs keepMax_def Let_def)

lemma example_direct:
  "foldl keepMax [] (concat (map (extractSkillReqs exampleReqAttrs)
      (planShip # List.map_filter exampleTypes (getAllModuleTypeIds exampleFitting))))
   = [(3334, 1), (3413, 5)]"
  by (simp add: getAllModuleTypeIds_def exampleFitting_def createEmptyFitting_def createEmptySlots_def
        replicate_numeral map_filter_simps planShip_reqs keepMax_def Let_def)


lemma et_name_exampleSkill [simp]: "et_name (exampleSkill i n a) = n"
  by (simp add: exampleSkill_def)

lemma example_names1:
  "resolveNames exampleTypes [3334, 3413, 3327] []
     = [(3334, ''Minmatar Battlecruiser''), (3413, ''Power Grid Management''),
        (3327, ''Spaceship Command'')]"
  by (simp add: resolveNames_def exampleTypes_simps)

lemma example_stage2Map:
  "foldl supportFloor
     (foldl (\<lambda>m (skillId, level). AList.update skillId (max level 4) m) []
        [(3334, 1), (3413, 5), (3327, 3)])
     (map real SUPPORT_SKILL_IDS)
   = [(3334, 4), (3413, 5), (3327, 4), (3426, 4), (3418, 4), (3417, 4), (3419, 4), (3394, 4),
      (3392, 4), (3449, 4), (3453, 4), (3428, 4), (3431, 4), (3432, 4)]"
  by (simp add: supportFloor_def SUPPORT_SKILL_IDS_def)

lemma example_names2:
  "resolveNames exampleTypes
     (filter (\<lambda>i. map_of [(3334, ''Minmatar Battlecruiser''), (3413, ''Power Grid Management''),
        (3327, ''Spaceship Command'')] i = None) (map real SUPPORT_SKILL_IDS))
     [(3334, ''Minmatar Battlecruiser''), (3413, ''Power Grid Management''),
        (3327, ''Spaceship Command'')]
   = [(3334, ''Minmatar Battlecruiser''), (3413, ''Power Grid Management''),
        (3327, ''Spaceship Command''), (3426, ''CPU Management'')]"
  by (simp add: resolveNames_def exampleTypes_simps SUPPORT_SKILL_IDS_def)

lemma example_plan:
  "planStages exampleLookups exampleCompare [(3334, 1), (3413, 5), (3327, 3)] =
     \<lparr>stages =
        [\<lparr>stage_name = ''Minimum'',
          skills = [\<lparr>skill_type_id = 3334, skill_name = ''Minmatar Battlecruiser'', required_level = 1\<rparr>,
                    \<lparr>skill_type_id = 3413, skill_name = ''Power Grid Management'', required_level = 5\<rparr>,
                    \<lparr>skill_type_id = 3327, skill_name = ''Spaceship Command'', required_level = 3\<rparr>],
          total = 3\<rparr>,
         \<lparr>stage_name = ''Recommended'',
          skills = [\<lparr>skill_type_id = 3426, skill_name = ''CPU Management'', required_level = 4\<rparr>,
                    \<lparr>skill_type_id = 3334, skill_name = ''Minmatar Battlecruiser'', required_level = 4\<rparr>,
                    \<lparr>skill_type_id = 3413, skill_name = ''Power Grid Management'', required_level = 5\<rparr>,
                    \<lparr>skill_type_id = 3327, skill_name = ''Spaceship Command'', required_level = 4\<rparr>],
          total = 4\<rparr>,
         \<lparr>stage_name = ''Mastery'',
          skills = [\<lparr>skill_type_id = 3426, skill_name = ''CPU Management'', required_level = 5\<rparr>,
                    \<lparr>skill_type_id = 3334, skill_name = ''Minmatar Battlecruiser'', required_level = 5\<rparr>,
                    \<lparr>skill_type_id = 3413, skill_name = ''Power Grid Management'', required_level = 5\<rparr>,
                    \<lparr>skill_type_id = 3327, skill_name = ''Spaceship Command'', required_level = 5\<rparr>],
          total = 4\<rparr>]\<rparr>"
  unfolding planStages_def Let_def exampleLookups_def
  apply (simp only: Lookups.simps list.map fst_conv example_names1 example_stage2Map example_names2)
  apply (simp add: namedSkills_def map_filter_simps sortByName_def)
  done

text \<open>
  Claim C8. Every plan that \<open>buildSkillPlan\<close> returns has the three stages Minimum,
  Recommended and Mastery, in this order; the skill ids of Mastery include those of
  Recommended, which include those of Minimum; every level in Mastery is 5; every level
  in Recommended is at least 4 and at least the level of the same skill in Minimum. This
  holds for every outcome of the lookups at each of the four places and for every
  requirement map that the resolution produces (lemma \<open>planStages_ordering\<close>), hence for
  every order in which the lookups complete.
\<close>

theorem skill_plan_stage_ordering:
  assumes "buildSkillPlan fuel lk attrs cmp ship fit = Some plan"
  shows "\<exists>minimum recommended mastery.
     stages plan = [minimum, recommended, mastery] \<and>
     stage_name minimum = ''Minimum'' \<and> stage_name recommended = ''Recommended'' \<and>
     stage_name mastery = ''Mastery'' \<and>
     skill_type_id ` set (skills minimum) \<subseteq> skill_type_id ` set (skills recommended) \<and>
     skill_type_id ` set (skills recommended) \<subseteq> skill_type_id ` set (skills mastery) \<and>
     (\<forall>s\<in>set (skills mastery). required_level s = 5) \<and>
     (\<forall>s\<in>set (skills recommended). 4 \<le> required_level s) \<and>
     (\<forall>s\<in>set (skills recommended). \<forall>m\<in>set (skills minimum).
         skill_type_id m = skill_type_id s \<longrightarrow> required_level m \<le> required_level s)"
proof -
  define direct where "direct = foldl keepMax []
     (concat (map (extractSkillReqs attrs)
        (ship # List.map_filter (moduleLookup lk) (getAllModuleTypeIds fit))))"
  from assms obtain visited allReqs where
    r: "resolveRoots fuel (prereqLookup lk) attrs (map fst direct) (map fst direct) direct
          = Some (visited, allReqs)"
    and p: "plan = planStages lk cmp allReqs"
    by (auto simp: buildSkillPlan_def Let_def direct_def split: option.splits)
  have "distinct (map fst direct)"
    unfolding direct_def by (rule keepMax_fold_distinct) simp
  with r have "distinct (map fst allReqs)" by (rule resolveRoots_distinct)
  then show ?thesis unfolding p by (rule planStages_ordering)
qed

theorem skill_plan_stage_ordering_witness:
  "\<exists>minimum recommended mastery.
     buildSkillPlan 4 exampleLookups exampleReqAttrs exampleCompare planShip exampleFitting
       = Some \<lparr>stages = [minimum, recommended, mastery]\<rparr> \<and>
     map (\<lambda>s. (skill_type_id s, required_level s)) (skills minimum)
       = [(3334, 1), (3413, 5), (3327, 3)] \<and>
     map (\<lambda>s. (skill_type_id s, required_level s)) (skills recommended)
       = [(3426, 4), (3334, 4), (3413, 5), (3327, 4)] \<and>
     map (\<lambda>s. (skill_type_id s, required_level s)) (skills mastery)
       = [(3426, 5), (3334, 5), (3413, 5), (3327, 5)] \<and>
     skill_type_id ` set (skills minimum) \<subseteq> skill_type_id ` set (skills recommended) \<and>
     skill_type_id ` set (skills recommended) \<subseteq> skill_type_id ` set (skills mastery) \<and>
     (\<forall>s\<in>set (skills mastery). required_level s = 5) \<and>
     (\<forall>s\<in>set (skills recommended). 4 \<le> required_level s) \<and>
     (\<forall>s\<in>set (skills recommended). \<forall>m\<in>set (skills minimum).
         skill_type_id m = skill_type_id s \<longrightarrow> required_level m \<le> required_level s)"
proof -
  let ?plan = "planStages exampleLookups exampleCompare [(3334, 1), (3413, 5), (3327, 3)]"
  have run: "buildSkillPlan 4 exampleLookups exampleReqAttrs exampleCompare planShip exampleFitting
               = Some ?plan"
    unfolding buildSkillPlan_def Let_def
    apply (simp only: exampleLookups_def Lookups.simps example_direct)
    apply (simp only: list.map fst_conv example_allReqs option.case prod.case)
    done
  from skill_plan_stage_ordering[OF run] obtain minimum recommended mastery where
    st: "stages ?plan = [minimum, recommended, mastery]" and
    ord: "skill_type_id ` set (skills minimum) \<subseteq> skill_type_id ` set (skills recommended)"
      "skill_type_id ` set (skills recommended) \<subseteq> skill_type_id ` set (skills mastery)"
      "\<forall>s\<in>set (skills mastery). required_level s = 5"
      "\<forall>s\<in>set (skills recommended). 4 \<le> required_level s"
      "\<forall>s\<in>set (skills recommended). \<forall>m\<in>set (skills minimum).
         skill_type_id m = skill_type_id s \<longrightarrow> required_level m \<le> required_level s"
    by blast
  have whole: "?plan = \<lparr>stages = [minimum, recommended, mastery]\<rparr>"
    using st by (cases ?plan) simp
  have vals:
    "map (\<lambda>s. (skill_type_id s, required_level s)) (skills minimum)
       = [(3334, 1), (3413, 5), (3327, 3)]"
    "map (\<lambda>s. (skill_type_id s, required_level s)) (skills recommended)
       = [(3426, 4), (3334, 4), (3413, 5), (3327, 4)]"
    "map (\<lambda>s. (skill_type_id s, required_level s)) (skills mastery)
       = [(3426, 5), (3334, 5), (3413, 5), (3327, 5)]"
    using st unfolding example_plan by auto
  show ?thesis
    using run whole vals ord by (intro exI[of _ minimum] exI[of _ recommended] exI[of _ mastery]) simp
qed

section \<open>EFT text format: serializer and parser\<close>

subsection \<open>Trimming\<close>
lemma trim_Nil [simp]: "trim [] = []" by (simp add: trim_def)



subsection \<open>Decimal digits\<close>



lemma x_not_digit [simp]: "\<not> isDigit (CHR ''x'')" "\<not> isSpace (CHR ''x'')" "isSpace (CHR '' '')"
  "\<not> isDigit (CHR '' '')"
  by (simp_all add: isDigit_def isSpace_def)





subsection \<open>The quantity pattern \<open>/^(.+?)\s+x(\d+)$/\<close>\<close>







subsection \<open>A formatted line parses back\<close>









subsection \<open>The loop over the lines\<close>








subsection \<open>Slot sections\<close>






subsection \<open>Joining and splitting lines\<close>











subsection \<open>The header of a serialized fitting\<close>



subsection \<open>Serializing and parsing\<close>




















section \<open>EFT text format: the header\<close>

lemma matchFitName_Some:
  "matchFitName r = Some b \<longleftrightarrow>
     r = b @ [CHR '']''] \<and> b \<noteq> [] \<and> list_all (\<lambda>c. \<not> isLineTerminator c) b"
proof
  assume "matchFitName r = Some b"
  then have l: "length r \<ge> 2" and la: "last r = CHR '']''" and b: "b = butlast r"
    and nl: "list_all (\<lambda>c. \<not> isLineTerminator c) (butlast r)"
    by (auto simp: matchFitName_def split: if_splits)
  from l have ne: "r \<noteq> []" by auto
  then have "r = butlast r @ [last r]" by simp
  with la b have "r = b @ [CHR '']'']" by simp
  moreover from l b have "b \<noteq> []" by (cases r rule: rev_cases) auto
  ultimately show "r = b @ [CHR '']''] \<and> b \<noteq> [] \<and> list_all (\<lambda>c. \<not> isLineTerminator c) b"
    using nl b by simp
next
  assume "r = b @ [CHR '']''] \<and> b \<noteq> [] \<and> list_all (\<lambda>c. \<not> isLineTerminator c) b"
  then show "matchFitName r = Some b"
    by (cases b) (auto simp: matchFitName_def)
qed

lemma matchAfterComma_sound:
  "matchAfterComma k r = Some b \<Longrightarrow> \<exists>j\<le>k. matchFitName (drop j r) = Some b"
proof (induction k)
  case 0 then show ?case by simp
next
  case (Suc k)
  show ?case
  proof (cases "matchFitName (drop (Suc k) r)")
    case None
    with Suc.prems have "matchAfterComma k r = Some b" by simp
    from Suc.IH[OF this] show ?thesis by (meson le_SucI)
  next
    case (Some b')
    with Suc.prems have "b' = b" by simp
    with Some show ?thesis by blast
  qed
qed

lemma matchAfterComma_complete:
  "j \<le> k \<Longrightarrow> matchFitName (drop j r) \<noteq> None \<Longrightarrow> matchAfterComma k r \<noteq> None"
proof (induction k)
  case 0 then show ?case by simp
next
  case (Suc k)
  show ?case
  proof (cases "matchFitName (drop (Suc k) r)")
    case (Some b') then show ?thesis by simp
  next
    case None
    with Suc.prems have "j \<le> k" by (cases "j = Suc k") auto
    from Suc.IH[OF this Suc.prems(2)] None show ?thesis by simp
  qed
qed

lemma matchShipName_sound:
  "matchShipName a rest = Some (a', b) \<Longrightarrow>
   \<exists>s r j. rest = s @ CHR '','' # r \<and> a' = a @ s \<and> list_all (\<lambda>c. \<not> isLineTerminator c) s \<and>
           j \<le> length (takeWhile isSpace r) \<and> matchFitName (drop j r) = Some b"
proof (induction a rest rule: matchShipName.induct)
  case (1 a) then show ?case by simp
next
  case (2 a c r)
  let ?attempt = "if c = CHR '','' then matchAfterComma (length (takeWhile isSpace r)) r else None"
  show ?case
  proof (cases ?attempt)
    case (Some b')
    with "2.prems" have e: "a' = a" "b' = b" by simp_all
    from Some have c: "c = CHR '',''" and m: "matchAfterComma (length (takeWhile isSpace r)) r = Some b'"
      by (auto split: if_splits)
    from matchAfterComma_sound[OF m] obtain j where
      "j \<le> length (takeWhile isSpace r)" "matchFitName (drop j r) = Some b'" by blast
    with c e show ?thesis by (intro exI[of _ "[]"] exI[of _ r] exI[of _ j]) simp
  next
    case None
    with "2.prems" have nl: "\<not> isLineTerminator c" and rec: "matchShipName (a @ [c]) r = Some (a', b)"
      by (auto split: if_splits)
    from "2.IH"[OF None nl rec] obtain s r' j where
      "r = s @ CHR '','' # r'" "a' = (a @ [c]) @ s" "list_all (\<lambda>c. \<not> isLineTerminator c) s"
      "j \<le> length (takeWhile isSpace r')" "matchFitName (drop j r') = Some b" by blast
    with nl show ?thesis by (intro exI[of _ "c # s"] exI[of _ r'] exI[of _ j]) simp
  qed
qed

lemma matchShipName_complete:
  "list_all (\<lambda>c. \<not> isLineTerminator c) s \<Longrightarrow> j \<le> length (takeWhile isSpace r) \<Longrightarrow>
   matchFitName (drop j r) \<noteq> None \<Longrightarrow> matchShipName a (s @ CHR '','' # r) \<noteq> None"
proof (induction s arbitrary: a)
  case Nil
  from matchAfterComma_complete[OF Nil(2,3)] show ?case by (auto split: option.splits)
next
  case (Cons c s)
  from Cons.prems(1) have nl: "\<not> isLineTerminator c" and rest: "list_all (\<lambda>c. \<not> isLineTerminator c) s"
    by simp_all
  from Cons.IH[OF rest Cons.prems(2,3)] have "matchShipName (a @ [c]) (s @ CHR '','' # r) \<noteq> None" .
  with nl show ?case by (auto split: option.splits)
qed

lemma takeWhile_prefix_all:
  "list_all P w \<Longrightarrow> length w \<le> length (takeWhile P (w @ r))"
  by (induction w) auto

lemma take_takeWhile_all:
  "j \<le> length (takeWhile P r) \<Longrightarrow> list_all P (take j r)"
proof (induction r arbitrary: j)
  case Nil then show ?case by simp
next
  case (Cons c r)
  then show ?case by (cases j) (auto split: if_splits)
qed

lemma headerShape_iff: "headerShape h \<longleftrightarrow> matchHeader h \<noteq> None"
proof
  assume "headerShape h"
  then obtain a w b where h: "h = CHR ''['' # a @ CHR '','' # w @ b @ [CHR '']'']"
    and ne: "a \<noteq> []" "b \<noteq> []" and w: "list_all isSpace w"
    and nl: "list_all (\<lambda>c. \<not> isLineTerminator c) a" "list_all (\<lambda>c. \<not> isLineTerminator c) b"
    unfolding headerShape_def by blast
  from ne(1) obtain d s where a: "a = d # s" by (cases a) auto
  have fit: "matchFitName (drop (length w) (w @ b @ [CHR '']''])) \<noteq> None"
    using ne(2) nl(2) by (simp add: matchFitName_Some[THEN iffD2])
  have "matchShipName [d] (s @ CHR '','' # w @ b @ [CHR '']'']) \<noteq> None"
    using nl(1) takeWhile_prefix_all[OF w] fit unfolding a
    by (intro matchShipName_complete[where j = "length w"]) simp_all
  with nl(1) show "matchHeader h \<noteq> None" by (simp add: matchHeader_def h a)
next
  assume "matchHeader h \<noteq> None"
  then obtain d rest a' b where h: "h = CHR ''['' # d # rest" and d: "\<not> isLineTerminator d"
    and m: "matchShipName [d] rest = Some (a', b)"
    by (auto simp: matchHeader_def split: list.splits if_splits)
  from matchShipName_sound[OF m] obtain s r j where
    r: "rest = s @ CHR '','' # r" and a': "a' = [d] @ s" and s: "list_all (\<lambda>c. \<not> isLineTerminator c) s"
    and j: "j \<le> length (takeWhile isSpace r)" and f: "matchFitName (drop j r) = Some b" by blast
  from f have b: "drop j r = b @ [CHR '']'']" "b \<noteq> []" "list_all (\<lambda>c. \<not> isLineTerminator c) b"
    by (simp_all add: matchFitName_Some)
  have "r = take j r @ drop j r" by simp
  with b(1) have r': "r = take j r @ b @ [CHR '']'']" by simp
  have "h = CHR ''['' # (d # s) @ CHR '','' # take j r @ b @ [CHR '']'']"
    unfolding h r using r' by simp
  then show "headerShape h"
    unfolding headerShape_def
    using d s b(2,3) take_takeWhile_all[OF j]
    by (intro exI[of _ "d # s"] exI[of _ "take j r"] exI[of _ b]) simp
qed

lemma splitLines_nonempty [simp]: "splitLines s \<noteq> []"
  by (induction s) (auto split: list.splits)

text \<open>
  Claim C6, as the code has it. \<open>parseEFT\<close> fails, with the error that names the header line
  and with no result, exactly when the trimmed first line of the trimmed text is not of the
  form \<open>[a,wb]\<close> where \<open>a\<close> and \<open>b\<close> are not empty and hold no line terminator and \<open>w\<close> is
  white space (\<open>headerShape\<close>); every text whose header line has that form parses. The two
  names are measured before they are trimmed: a name of white space only is accepted, and it
  is returned as the empty string.
\<close>

theorem parseEFT_header_error:
  "(\<not> headerShape (headerLineOf t) \<longrightarrow> parseEFT t = Inl (InvalidHeader (headerLineOf t))) \<and>
   (headerShape (headerLineOf t) \<longrightarrow> (\<exists>p. parseEFT t = Inr p))"
proof (cases "splitLines (trim t)")
  case Nil then show ?thesis using splitLines_nonempty by blast
next
  case (Cons first rest)
  then have hl: "headerLineOf t = trim first" by (simp add: headerLineOf_def)
  show ?thesis
    unfolding hl headerShape_iff
    by (auto simp: parseEFT_def Cons Let_def split: option.splits prod.splits)
qed

lemma exampleText_header:
  "headerLineOf exampleText = ''[Hurricane, My Fit]'' \<and> matchHeader ''[Hurricane, My Fit]'' \<noteq> None"
  by (simp add: exampleText_def headerLineOf_def trim_def newline_def isSpace_def matchHeader_def
        matchFitName_def isLineTerminator_def)

lemma headlessText_header:
  "headerLineOf headlessText = ''Hurricane'' \<and> matchHeader ''Hurricane'' = None"
  by (simp add: headlessText_def headerLineOf_def trim_def newline_def isSpace_def matchHeader_def)

theorem parseEFT_header_error_witness:
  "\<not> headerShape (headerLineOf headlessText) \<and>
   parseEFT headlessText = Inl (InvalidHeader ''Hurricane'') \<and>
   headerShape (headerLineOf exampleText) \<and>
   (\<exists>p. parseEFT exampleText = Inr p)"
  using parseEFT_header_error[of headlessText] parseEFT_header_error[of exampleText]
  by (simp add: headerShape_iff exampleText_header headlessText_header)

text \<open>
  A header whose ship name is blank: the pattern matches, the text parses, and the ship name
  that comes back is empty.
\<close>

theorem parseEFT_header_counterexample:
  "headerLineOf blankShipText = ''[ , x]'' \<and>
   parseEFT blankShipText =
     Inr \<lparr>p_shipName = [], p_fitName = ''x'', p_lowSlots = [], p_midSlots = [],
          p_highSlots = [], p_rigSlots = [], p_subsystems = [], p_drones = [], p_cargo = []\<rparr>"
  by (simp add: blankShipText_def headerLineOf_def parseEFT_def trim_def newline_def matchHeader_def
        matchFitName_def isLineTerminator_def isSpace_def sectionAt_def Let_def)

end
